theory Spec2Isabelle
  imports Complex_Main
begin

section \<open>The notebooks as programs\<close>

text \<open>
  The repository consists of Jupyter notebooks. Each notebook is a straight-line Python
  program: its code cells, run top to bottom. The notebooks are embedded here as data, cell
  by cell and statement by statement, so that properties of what a notebook calls, asserts
  and defines can be stated about the notebook itself. Markdown cells and comments carry no
  code and are left out.

  Expressions follow Python's grammar. A name, an attribute path or a subscript path whose
  indices are numbers, names or slices (\<^verbatim>\<open>m.fs.pump_case_1.inlet.flow_mol[0].fix\<close>) is one
  \<open>Name\<close>, spelled as the source spells it; \<open>Attribute\<close> and \<open>Subscript\<close> stand where the path
  goes through a call or a string index. \<open>Call f args kws\<close> has the callee, the positional
  arguments and the keyword arguments (the keyword \<^verbatim>\<open>**\<close> for an unpacked dictionary).
  \<open>Constant\<close> is \<^verbatim>\<open>True\<close>, \<^verbatim>\<open>False\<close> or \<^verbatim>\<open>None\<close>; \<open>ListComp e v it\<close> is \<^verbatim>\<open>[e for v in it]\<close> and
  \<open>DictComp k e v it\<close> is \<^verbatim>\<open>{k: e for v in it}\<close>; \<open>JoinedStr\<close> is an f-string. Numeric literals are
  real numbers: \<^verbatim>\<open>0.33\<close> is \<open>33 / 100\<close> and \<^verbatim>\<open>1e-2\<close> is \<open>1 / 100\<close>. Python's floating-point
  rounding is not part of this model.
\<close>

datatype binop = OpAdd | OpSub | OpMult | OpDiv | OpPow

datatype cmpop = CmpEq | CmpLtE | CmpLt | CmpIn

datatype expr =
    Num real
  | Str string
  | Constant string
  | Name string
  | Attribute expr string
  | Subscript expr expr
  | Call expr "expr list" "(string \<times> expr) list"
  | BinOp expr binop expr
  | Compare expr cmpop expr
  | ListE "expr list"
  | TupleE "expr list"
  | DictE "(expr \<times> expr) list"
  | ListComp expr string expr
  | DictComp expr expr string expr
  | JoinedStr "expr list"

text \<open>
  Statements: \<open>Import\<close> has the module (with \<^verbatim>\<open>as\<close> and the alias, if any), \<open>ImportFrom\<close> the module
  and the imported names; \<open>Assign\<close> has the targets (several when a tuple is unpacked) and the
  value; \<open>FunctionDef\<close> has the name, the decorators, the parameters and the body; \<open>For\<close> has
  the loop variable, the iterable and the body; \<open>IfStmt\<close> has the test and the two branches;
  \<open>TryExcept\<close> has the body, the exception class of its one handler, the name the exception
  is bound to, and the handler's body; \<open>Raise\<close> is a bare \<^verbatim>\<open>raise\<close>.
\<close>

datatype stmt =
    Import string
  | ImportFrom string "string list"
  | ExprStmt expr
  | Assign "string list" expr
  | Assert expr
  | FunctionDef string "expr list" "string list" "stmt list"
  | Return expr
  | For string expr "stmt list"
  | IfStmt expr "stmt list" "stmt list"
  | TryExcept "stmt list" string string "stmt list"
  | Raise

text \<open>A code cell is the list of its statements; a notebook is the list of its code cells.\<close>

type_synonym cell = "stmt list"

type_synonym notebook = "cell list"

section \<open>The six notebooks\<close>

text \<open>
  The three source files hold six notebooks: \<^verbatim>\<open>pump_test.ipynb\<close> holds the pump notebook and
  the Txy-diagram notebook, \<^verbatim>\<open>petsc_chem.ipynb\<close> the PETSc chemical example, and
  \<^verbatim>\<open>petsc_pid.ipynb\<close> the PETSc PID example followed by the two autothermal-reformer
  surrogate notebooks (PySMO and ALAMO). Cells are numbered among the code cells of their
  notebook, from 1; a cell that holds only comments is the empty list.
\<close>

subsection \<open>Pump Unit Model with IAPWS Property Package\<close>

text \<open>
  The code cells of the notebook in \<^verbatim>\<open>src/idaes_examples/notebooks/docs/unit_models/operations/pump_test.ipynb\<close>,
  lines 13 to 510 of the file.
\<close>

(* lines 85 to 109 *)
definition pump_cell_2 :: cell where
  "pump_cell_2 = [
   ImportFrom ''pyomo.environ'' [''ConcreteModel'', ''SolverFactory'', ''value'', ''units''],
   ImportFrom ''idaes.core'' [''FlowsheetBlock''],
   Import ''idaes.logger as idaeslog'',
   Assign [''m''] (Call (Name ''ConcreteModel'') [] []),
   Assign [''m.fs''] (Call (Name ''FlowsheetBlock'') [] [(''dynamic'', Constant ''False'')]),
   ImportFrom ''idaes.models.properties'' [''iapws95''],
   ImportFrom ''idaes.models.properties.helmholtz.helmholtz'' [''PhaseType''],
   Assign [''m.fs.properties'']
     (Call (Name ''iapws95.Iapws95ParameterBlock'') []
        [(''phase_presentation'', Name ''PhaseType.L'')])]"

(* lines 130 to 137 *)
definition pump_cell_3 :: cell where
  "pump_cell_3 = [
   ImportFrom ''idaes.models.unit_models.pressure_changer'' [''Pump''],
   Assign [''m.fs.pump_case_1'']
     (Call (Name ''Pump'') [] [(''property_package'', Name ''m.fs.properties'')])]"

(* lines 144 to 152 *)
definition pump_cell_4 :: cell where
  "pump_cell_4 = [
   ImportFrom ''idaes.core.util.model_statistics'' [''degrees_of_freedom''],
   Assign [''DOF_initial''] (Call (Name ''degrees_of_freedom'') [Name ''m''] []),
   ExprStmt
     (Call (Name ''print'')
        [Call (Attribute (Str ''The initial DOF is {0}'') ''format'') [Name ''DOF_initial''] []] [])]"

(* lines 163 to 165 *)
definition pump_cell_5 :: cell where
  "pump_cell_5 = [
   Assert (Compare (Name ''DOF_initial'') CmpEq (Num 5))]"

(* lines 179 to 188 *)
definition pump_cell_6 :: cell where
  "pump_cell_6 = [
   ExprStmt (Call (Name ''m.fs.pump_case_1.inlet.flow_mol[0].fix'') [Num 100] []),
   ExprStmt
     (Call (Name ''m.fs.pump_case_1.inlet.enth_mol[0].fix'')
        [Call (Name ''value'')
           [Call (Name ''iapws95.htpx'') []
              [(''T'', BinOp (Num (29815 / 100)) OpMult (Name ''units.K'')),
               (''P'', BinOp (Num 101325) OpMult (Name ''units.Pa''))]]
           []]
        []),
   ExprStmt (Call (Name ''m.fs.pump_case_1.inlet.pressure[0].fix'') [Num 101325] [])]"

(* lines 202 to 210 *)
definition pump_cell_7 :: cell where
  "pump_cell_7 = [
   ExprStmt (Call (Name ''m.fs.pump_case_1.deltaP.fix'') [Num 100000] []),
   ExprStmt (Call (Name ''m.fs.pump_case_1.efficiency_pump.fix'') [Num (8 / 10)] []),
   Assign [''DOF_final''] (Call (Name ''degrees_of_freedom'') [Name ''m''] []),
   ExprStmt
     (Call (Name ''print'')
        [Call (Attribute (Str ''The final DOF is {0}'') ''format'') [Name ''DOF_final''] []] [])]"

(* lines 221 to 223 *)
definition pump_cell_8 :: cell where
  "pump_cell_8 = [
   Assert (Compare (Name ''DOF_final'') CmpEq (Num 0))]"

(* lines 237 to 240 *)
definition pump_cell_9 :: cell where
  "pump_cell_9 = [
   ExprStmt (Call (Name ''m.fs.pump_case_1.initialize'') [] [(''outlvl'', Name ''idaeslog.INFO'')])]"

(* lines 254 to 259 *)
definition pump_cell_10 :: cell where
  "pump_cell_10 = [
   Assign [''opt''] (Call (Name ''SolverFactory'') [Str ''ipopt''] []),
   Assign [''solve_status''] (Call (Name ''opt.solve'') [Name ''m''] [(''tee'', Constant ''True'')])]"

(* lines 277 to 283 *)
definition pump_cell_12 :: cell where
  "pump_cell_12 = [
   ImportFrom ''pyomo.opt'' [''TerminationCondition'', ''SolverStatus''],
   Assert
     (Compare (Name ''solve_status.solver.termination_condition'') CmpEq
        (Name ''TerminationCondition.optimal'')),
   Assert (Compare (Name ''solve_status.solver.status'') CmpEq (Name ''SolverStatus.ok''))]"

(* lines 297 to 300 *)
definition pump_cell_13 :: cell where
  "pump_cell_13 = [
   ExprStmt (Call (Name ''m.fs.pump_case_1.report'') [] [])]"

(* lines 311 to 317 *)
definition pump_cell_14 :: cell where
  "pump_cell_14 = [
   Import ''pytest'',
   Assert
     (Compare (Name ''m.fs.pump_case_1.outlet.pressure[0].value'') CmpEq
        (Call (Name ''pytest.approx'') [Num 201325] [(''abs'', Num (1 / 100))])),
   Assert
     (Compare (Name ''m.fs.pump_case_1.work_mechanical[0].value'') CmpEq
        (Call (Name ''pytest.approx'') [Num (22585 / 100)] [(''abs'', Num (1 / 100))]))]"

(* lines 338 to 346 *)
definition pump_cell_15 :: cell where
  "pump_cell_15 = [
   Assign [''m.fs.pump_case_2'']
     (Call (Name ''Pump'') [] [(''property_package'', Name ''m.fs.properties'')]),
   Assign [''DOF_initial''] (Call (Name ''degrees_of_freedom'') [Name ''m.fs.pump_case_2''] []),
   ExprStmt
     (Call (Name ''print'')
        [Call (Attribute (Str ''The initial DOF is {0}'') ''format'') [Name ''DOF_initial''] []] [])]"

(* lines 357 to 359 *)
definition pump_cell_16 :: cell where
  "pump_cell_16 = [
   Assert (Compare (Name ''DOF_initial'') CmpEq (Num 5))]"

(* lines 373 to 382 *)
definition pump_cell_17 :: cell where
  "pump_cell_17 = [
   ExprStmt (Call (Name ''m.fs.pump_case_2.inlet.flow_mol[0].fix'') [Num 100] []),
   ExprStmt
     (Call (Name ''m.fs.pump_case_2.inlet.enth_mol[0].fix'')
        [Call (Name ''value'')
           [Call (Name ''iapws95.htpx'') []
              [(''T'', BinOp (Num (29815 / 100)) OpMult (Name ''units.K'')),
               (''P'', BinOp (Num 101325) OpMult (Name ''units.Pa''))]]
           []]
        []),
   ExprStmt (Call (Name ''m.fs.pump_case_2.inlet.pressure[0].fix'') [Num 101325] [])]"

(* lines 396 to 402 *)
definition pump_cell_18 :: cell where
  "pump_cell_18 = [
   ExprStmt (Call (Name ''m.fs.pump_case_2.outlet.pressure[0].fix'') [Num 201325] []),
   ExprStmt (Call (Name ''m.fs.pump_case_2.efficiency_pump.fix'') [Num (8 / 10)] [])]"

(* lines 409 to 412 *)
definition pump_cell_19 :: cell where
  "pump_cell_19 = [
   Assign [''DOF_final''] (Call (Name ''degrees_of_freedom'') [Name ''m.fs.pump_case_2''] []),
   ExprStmt
     (Call (Name ''print'')
        [Call (Attribute (Str ''The final degrees of freedom is: {0}'') ''format'')
           [Name ''DOF_final''] []]
        [])]"

(* lines 423 to 425 *)
definition pump_cell_20 :: cell where
  "pump_cell_20 = [
   Assert (Compare (Name ''DOF_final'') CmpEq (Num 0))]"

(* lines 439 to 442 *)
definition pump_cell_21 :: cell where
  "pump_cell_21 = [
   ExprStmt (Call (Name ''m.fs.pump_case_2.initialize'') [] [(''outlvl'', Name ''idaeslog.INFO'')])]"

(* lines 456 to 461 *)
definition pump_cell_22 :: cell where
  "pump_cell_22 = [
   Assign [''opt''] (Call (Name ''SolverFactory'') [Str ''ipopt''] []),
   Assign [''solve_status'']
     (Call (Name ''opt.solve'') [Name ''m.fs.pump_case_2''] [(''tee'', Constant ''True'')])]"

(* lines 472 to 478 *)
definition pump_cell_23 :: cell where
  "pump_cell_23 = [
   ImportFrom ''pyomo.opt'' [''TerminationCondition'', ''SolverStatus''],
   Assert
     (Compare (Name ''solve_status.solver.termination_condition'') CmpEq
        (Name ''TerminationCondition.optimal'')),
   Assert (Compare (Name ''solve_status.solver.status'') CmpEq (Name ''SolverStatus.ok''))]"

(* lines 492 to 495 *)
definition pump_cell_24 :: cell where
  "pump_cell_24 = [
   ExprStmt (Call (Name ''m.fs.pump_case_2.report'') [] [])]"

(* lines 506 to 510 *)
definition pump_cell_25 :: cell where
  "pump_cell_25 = [
   Assert
     (Compare (Name ''m.fs.pump_case_2.deltaP[0].value'') CmpEq
        (Call (Name ''pytest.approx'') [Num 100000] [(''abs'', Num (1 / 100))])),
   Assert
     (Compare (Name ''m.fs.pump_case_2.work_mechanical[0].value'') CmpEq
        (Call (Name ''pytest.approx'') [Num (22585 / 100)] [(''abs'', Num (1 / 100))]))]"

definition pump_nb :: notebook where
  "pump_nb =
    [[], pump_cell_2, pump_cell_3, pump_cell_4, pump_cell_5, pump_cell_6, pump_cell_7, pump_cell_8,
     pump_cell_9, pump_cell_10, [], pump_cell_12, pump_cell_13, pump_cell_14, pump_cell_15,
     pump_cell_16, pump_cell_17, pump_cell_18, pump_cell_19, pump_cell_20, pump_cell_21,
     pump_cell_22, pump_cell_23, pump_cell_24, pump_cell_25]"

subsection \<open>Create a dictionary and use Txy diagrams\<close>

text \<open>
  The code cells of the notebook in \<^verbatim>\<open>src/idaes_examples/notebooks/docs/unit_models/operations/pump_test.ipynb\<close>,
  lines 547 to 857 of the file.
\<close>

(* lines 604 to 613 *)
definition txy_cell_2 :: cell where
  "txy_cell_2 = [
   ImportFrom ''pyomo.environ'' [''ConcreteModel''],
   Import ''idaes.logger as idaeslog'',
   ImportFrom ''idaes.models.properties.modular_properties'' [''GenericParameterBlock'']]"

(* lines 629 to 649 *)
definition txy_cell_3 :: cell where
  "txy_cell_3 = [
   Import ''logging'',
   ImportFrom ''pyomo.environ'' [''units as pyunits''],
   ImportFrom ''idaes.core'' [''LiquidPhase'', ''VaporPhase'', ''Component''],
   ImportFrom ''idaes.models.properties.modular_properties.state_definitions'' [''FTPx''],
   ImportFrom ''idaes.models.properties.modular_properties.eos.ideal'' [''Ideal''],
   ImportFrom ''idaes.models.properties.modular_properties.phase_equil'' [''SmoothVLE''],
   ImportFrom ''idaes.models.properties.modular_properties.phase_equil.bubble_dew''
     [''IdealBubbleDew''],
   ImportFrom ''idaes.models.properties.modular_properties.phase_equil.forms'' [''fugacity''],
   ImportFrom ''idaes.models.properties.modular_properties.pure'' [''Perrys''],
   ImportFrom ''idaes.models.properties.modular_properties.pure'' [''RPP4'']]"

(* lines 665 to 782 *)
definition txy_cell_4 :: cell where
  "txy_cell_4 = [
   Assign [''configuration'']
     (DictE
        [(Str ''components'',
           DictE
             [(Str ''benzene'',
                DictE
                  [(Str ''type'', Name ''Component''),
                   (Str ''elemental_composition'', DictE [(Str ''C'', Num 6), (Str ''H'', Num 6)]),
                   (Str ''dens_mol_liq_comp'', Name ''Perrys''),
                   (Str ''enth_mol_liq_comp'', Name ''Perrys''),
                   (Str ''enth_mol_ig_comp'', Name ''RPP4''),
                   (Str ''pressure_sat_comp'', Name ''RPP4''),
                   (Str ''phase_equilibrium_form'',
                     DictE [(TupleE [Str ''Vap'', Str ''Liq''], Name ''fugacity'')]),
                   (Str ''parameter_data'',
                     DictE
                       [(Str ''mw'',
                          TupleE
                            [Num (781136 / 10000000),
                             BinOp (Name ''pyunits.kg'') OpDiv (Name ''pyunits.mol'')]),
                        (Str ''pressure_crit'', TupleE [Num 4890000, Name ''pyunits.Pa'']),
                        (Str ''temperature_crit'', TupleE [Num (5622 / 10), Name ''pyunits.K'']),
                        (Str ''dens_mol_liq_comp_coeff'',
                          DictE
                            [(Str ''eqn_type'', Num 1),
                             (Str ''1'',
                               TupleE
                                 [Num (10162 / 10000),
                                  BinOp (Name ''pyunits.kmol'') OpMult
                                    (BinOp (Name ''pyunits.m'') OpPow (Num (- 3)))]),
                             (Str ''2'', TupleE [Num (2655 / 10000), Constant ''None'']),
                             (Str ''3'', TupleE [Num (56216 / 100), Name ''pyunits.K'']),
                             (Str ''4'', TupleE [Num (28212 / 100000), Constant ''None''])]),
                        (Str ''cp_mol_ig_comp_coeff'',
                          DictE
                            [(Str ''A'',
                               TupleE
                                 [Num (- 3392 / 100),
                                  BinOp (BinOp (Name ''pyunits.J'') OpDiv (Name ''pyunits.mol''))
                                    OpDiv (Name ''pyunits.K'')]),
                             (Str ''B'',
                               TupleE
                                 [Num (4739 / 10000),
                                  BinOp (BinOp (Name ''pyunits.J'') OpDiv (Name ''pyunits.mol''))
                                    OpDiv (BinOp (Name ''pyunits.K'') OpPow (Num 2))]),
                             (Str ''C'',
                               TupleE
                                 [Num (- 3017 / 10000000),
                                  BinOp (BinOp (Name ''pyunits.J'') OpDiv (Name ''pyunits.mol''))
                                    OpDiv (BinOp (Name ''pyunits.K'') OpPow (Num 3))]),
                             (Str ''D'',
                               TupleE
                                 [Num (713 / 10000000000),
                                  BinOp (BinOp (Name ''pyunits.J'') OpDiv (Name ''pyunits.mol''))
                                    OpDiv (BinOp (Name ''pyunits.K'') OpPow (Num 4))])]),
                        (Str ''cp_mol_liq_comp_coeff'',
                          DictE
                            [(Str ''1'',
                               TupleE
                                 [Num 129,
                                  BinOp (BinOp (Name ''pyunits.J'') OpDiv (Name ''pyunits.kmol''))
                                    OpDiv (Name ''pyunits.K'')]),
                             (Str ''2'',
                               TupleE
                                 [Num (- 17 / 100),
                                  BinOp (BinOp (Name ''pyunits.J'') OpDiv (Name ''pyunits.kmol''))
                                    OpDiv (BinOp (Name ''pyunits.K'') OpPow (Num 2))]),
                             (Str ''3'',
                               TupleE
                                 [Num (648 / 1000000),
                                  BinOp (BinOp (Name ''pyunits.J'') OpDiv (Name ''pyunits.kmol''))
                                    OpDiv (BinOp (Name ''pyunits.K'') OpPow (Num 3))]),
                             (Str ''4'',
                               TupleE
                                 [Num 0,
                                  BinOp (BinOp (Name ''pyunits.J'') OpDiv (Name ''pyunits.kmol''))
                                    OpDiv (BinOp (Name ''pyunits.K'') OpPow (Num 4))]),
                             (Str ''5'',
                               TupleE
                                 [Num 0,
                                  BinOp (BinOp (Name ''pyunits.J'') OpDiv (Name ''pyunits.kmol''))
                                    OpDiv (BinOp (Name ''pyunits.K'') OpPow (Num 5))])]),
                        (Str ''enth_mol_form_liq_comp_ref'',
                          TupleE
                            [Num 49000, BinOp (Name ''pyunits.J'') OpDiv (Name ''pyunits.mol'')]),
                        (Str ''enth_mol_form_vap_comp_ref'',
                          TupleE
                            [Num 82900, BinOp (Name ''pyunits.J'') OpDiv (Name ''pyunits.mol'')]),
                        (Str ''pressure_sat_comp_coeff'',
                          DictE
                            [(Str ''A'', TupleE [Num (- 698273 / 100000), Constant ''None'']),
                             (Str ''B'', TupleE [Num (133213 / 100000), Constant ''None'']),
                             (Str ''C'', TupleE [Num (- 262863 / 100000), Constant ''None'']),
                             (Str ''D'', TupleE [Num (- 333399 / 100000), Constant ''None''])])])]),
              (Str ''toluene'',
                DictE
                  [(Str ''type'', Name ''Component''),
                   (Str ''elemental_composition'', DictE [(Str ''C'', Num 7), (Str ''H'', Num 8)]),
                   (Str ''dens_mol_liq_comp'', Name ''Perrys''),
                   (Str ''enth_mol_liq_comp'', Name ''Perrys''),
                   (Str ''enth_mol_ig_comp'', Name ''RPP4''),
                   (Str ''pressure_sat_comp'', Name ''RPP4''),
                   (Str ''phase_equilibrium_form'',
                     DictE [(TupleE [Str ''Vap'', Str ''Liq''], Name ''fugacity'')]),
                   (Str ''parameter_data'',
                     DictE
                       [(Str ''mw'',
                          TupleE
                            [Num (921405 / 10000000),
                             BinOp (Name ''pyunits.kg'') OpDiv (Name ''pyunits.mol'')]),
                        (Str ''pressure_crit'', TupleE [Num 4100000, Name ''pyunits.Pa'']),
                        (Str ''temperature_crit'', TupleE [Num (5918 / 10), Name ''pyunits.K'']),
                        (Str ''dens_mol_liq_comp_coeff'',
                          DictE
                            [(Str ''eqn_type'', Num 1),
                             (Str ''1'',
                               TupleE
                                 [Num (8488 / 10000),
                                  BinOp (Name ''pyunits.kmol'') OpMult
                                    (BinOp (Name ''pyunits.m'') OpPow (Num (- 3)))]),
                             (Str ''2'', TupleE [Num (26655 / 100000), Constant ''None'']),
                             (Str ''3'', TupleE [Num (5918 / 10), Name ''pyunits.K'']),
                             (Str ''4'', TupleE [Num (2878 / 10000), Constant ''None''])]),
                        (Str ''cp_mol_ig_comp_coeff'',
                          DictE
                            [(Str ''A'',
                               TupleE
                                 [Num (- 2435 / 100),
                                  BinOp (BinOp (Name ''pyunits.J'') OpDiv (Name ''pyunits.mol''))
                                    OpDiv (Name ''pyunits.K'')]),
                             (Str ''B'',
                               TupleE
                                 [Num (5125 / 10000),
                                  BinOp (BinOp (Name ''pyunits.J'') OpDiv (Name ''pyunits.mol''))
                                    OpDiv (BinOp (Name ''pyunits.K'') OpPow (Num 2))]),
                             (Str ''C'',
                               TupleE
                                 [Num (- 2765 / 10000000),
                                  BinOp (BinOp (Name ''pyunits.J'') OpDiv (Name ''pyunits.mol''))
                                    OpDiv (BinOp (Name ''pyunits.K'') OpPow (Num 3))]),
                             (Str ''D'',
                               TupleE
                                 [Num (4911 / 100000000000),
                                  BinOp (BinOp (Name ''pyunits.J'') OpDiv (Name ''pyunits.mol''))
                                    OpDiv (BinOp (Name ''pyunits.K'') OpPow (Num 4))])]),
                        (Str ''cp_mol_liq_comp_coeff'',
                          DictE
                            [(Str ''1'',
                               TupleE
                                 [Num 140,
                                  BinOp (BinOp (Name ''pyunits.J'') OpDiv (Name ''pyunits.kmol''))
                                    OpDiv (Name ''pyunits.K'')]),
                             (Str ''2'',
                               TupleE
                                 [Num (- 152 / 1000),
                                  BinOp (BinOp (Name ''pyunits.J'') OpDiv (Name ''pyunits.kmol''))
                                    OpDiv (BinOp (Name ''pyunits.K'') OpPow (Num 2))]),
                             (Str ''3'',
                               TupleE
                                 [Num (695 / 1000000),
                                  BinOp (BinOp (Name ''pyunits.J'') OpDiv (Name ''pyunits.kmol''))
                                    OpDiv (BinOp (Name ''pyunits.K'') OpPow (Num 3))]),
                             (Str ''4'',
                               TupleE
                                 [Num 0,
                                  BinOp (BinOp (Name ''pyunits.J'') OpDiv (Name ''pyunits.kmol''))
                                    OpDiv (BinOp (Name ''pyunits.K'') OpPow (Num 4))]),
                             (Str ''5'',
                               TupleE
                                 [Num 0,
                                  BinOp (BinOp (Name ''pyunits.J'') OpDiv (Name ''pyunits.kmol''))
                                    OpDiv (BinOp (Name ''pyunits.K'') OpPow (Num 5))])]),
                        (Str ''enth_mol_form_liq_comp_ref'',
                          TupleE
                            [Num 12000, BinOp (Name ''pyunits.J'') OpDiv (Name ''pyunits.mol'')]),
                        (Str ''enth_mol_form_vap_comp_ref'',
                          TupleE
                            [Num 50100, BinOp (Name ''pyunits.J'') OpDiv (Name ''pyunits.mol'')]),
                        (Str ''pressure_sat_comp_coeff'',
                          DictE
                            [(Str ''A'', TupleE [Num (- 728607 / 100000), Constant ''None'']),
                             (Str ''B'', TupleE [Num (138091 / 100000), Constant ''None'']),
                             (Str ''C'', TupleE [Num (- 283433 / 100000), Constant ''None'']),
                             (Str ''D'', TupleE [Num (- 279168 / 100000), Constant ''None''])])])])]),
         (Str ''phases'',
           DictE
             [(Str ''Liq'',
                DictE
                  [(Str ''type'', Name ''LiquidPhase''), (Str ''equation_of_state'', Name ''Ideal'')]),
              (Str ''Vap'',
                DictE
                  [(Str ''type'', Name ''VaporPhase''), (Str ''equation_of_state'', Name ''Ideal'')])]),
         (Str ''base_units'',
           DictE
             [(Str ''time'', Name ''pyunits.s''), (Str ''length'', Name ''pyunits.m''),
              (Str ''mass'', Name ''pyunits.kg''), (Str ''amount'', Name ''pyunits.mol''),
              (Str ''temperature'', Name ''pyunits.K'')]),
         (Str ''state_definition'', Name ''FTPx''),
         (Str ''state_bounds'',
           DictE
             [(Str ''flow_mol'',
                TupleE
                  [Num 0, Num 100, Num 1000, BinOp (Name ''pyunits.mol'') OpDiv (Name ''pyunits.s'')]),
              (Str ''temperature'', TupleE [Num 150, Num 300, Num 450, Name ''pyunits.K'']),
              (Str ''pressure'', TupleE [Num 50000, Num 100000, Num 1000000, Name ''pyunits.Pa''])]),
         (Str ''pressure_ref'', TupleE [Num 100000, Name ''pyunits.Pa'']),
         (Str ''temperature_ref'', TupleE [Num 300, Name ''pyunits.K'']),
         (Str ''phases_in_equilibrium'', ListE [TupleE [Str ''Vap'', Str ''Liq'']]),
         (Str ''phase_equilibrium_state'',
           DictE [(TupleE [Str ''Vap'', Str ''Liq''], Name ''SmoothVLE'')]),
         (Str ''bubble_dew_method'', Name ''IdealBubbleDew''),
         (Str ''default_scaling_factors'', DictE [(Str ''mole_frac_comp[benzene]'', Num 1)])])]"

(* lines 798 to 804 *)
definition txy_cell_5 :: cell where
  "txy_cell_5 = [
   Assign [''model''] (Call (Name ''ConcreteModel'') [] []),
   Assign [''model.params'']
     (Call (Name ''GenericParameterBlock'') [] [(''**'', Name ''configuration'')])]"

(* lines 820 to 822 *)
definition txy_cell_6 :: cell where
  "txy_cell_6 = [
   ImportFrom ''idaes.core.util.phase_equilibria'' [''Txy_diagram'']]"

(* lines 843 to 857 *)
definition txy_cell_7 :: cell where
  "txy_cell_7 = [
   ExprStmt
     (Call (Name ''Txy_diagram'') [Name ''model'', Str ''benzene'', Str ''toluene'', Num 101325]
        [(''num_points'', Num 25), (''temperature'', Num (15015 / 100)),
         (''figure_name'', Constant ''None''), (''print_legend'', Constant ''True''),
         (''include_pressure'', Constant ''False''), (''print_level'', Name ''idaeslog.CRITICAL''),
         (''solver_op'', DictE [(Str ''tol'', Num (1 / 1000000))])])]"

definition txy_nb :: notebook where
  "txy_nb =
    [[], txy_cell_2, txy_cell_3, txy_cell_4, txy_cell_5, txy_cell_6, txy_cell_7]"

subsection \<open>PETSc Time-stepping Solver - Chemical Akzo Nobel Example\<close>

text \<open>
  The code cells of the notebook in \<^verbatim>\<open>src/idaes_examples/notebooks/docs/dae/petsc_chem.ipynb\<close>,
  lines 13 to 323 of the file.
\<close>

(* lines 62 to 69 *)
definition petsc_chem_cell_2 :: cell where
  "petsc_chem_cell_2 = [
   Import ''numpy as np'',
   Import ''matplotlib.pyplot as plt'',
   Import ''pyomo.environ as pyo'',
   Import ''idaes.core.solvers.petsc as petsc'',
   ImportFrom ''idaes.core.solvers.features'' [''dae'']]"

(* lines 95 to 98 *)
definition petsc_chem_cell_4 :: cell where
  "petsc_chem_cell_4 = [
   Assign [''m'', ''y1'', ''y2'', ''y3'', ''y4'', ''y5'', ''y6'']
     (Call (Name ''dae'') [] [(''nfe'', Num 10)])]"

(* lines 112 to 120 *)
definition petsc_chem_cell_5 :: cell where
  "petsc_chem_cell_5 = [
   ExprStmt (Call (Name ''print'') [Str ''at t = 0:''] []),
   ExprStmt
     (Call (Name ''print'')
        [JoinedStr [Str ''    y1 = '', Call (Name ''pyo.value'') [Name ''m.y[0, 1]''] []]] []),
   ExprStmt
     (Call (Name ''print'')
        [JoinedStr [Str ''    y2 = '', Call (Name ''pyo.value'') [Name ''m.y[0, 2]''] []]] []),
   ExprStmt
     (Call (Name ''print'')
        [JoinedStr [Str ''    y3 = '', Call (Name ''pyo.value'') [Name ''m.y[0, 3]''] []]] []),
   ExprStmt
     (Call (Name ''print'')
        [JoinedStr [Str ''    y4 = '', Call (Name ''pyo.value'') [Name ''m.y[0, 4]''] []]] []),
   ExprStmt
     (Call (Name ''print'')
        [JoinedStr [Str ''    y5 = '', Call (Name ''pyo.value'') [Name ''m.y[0, 5]''] []]] [])]"

(* lines 146 to 168 *)
definition petsc_chem_cell_7 :: cell where
  "petsc_chem_cell_7 = [
   Assign [''result'']
     (Call (Name ''petsc.petsc_dae_by_time_element'') [Name ''m'']
        [(''time'', Name ''m.t''),
         (''between'', ListE [Call (Name ''m.t.first'') [] [], Call (Name ''m.t.last'') [] []]),
         (''ts_options'',
           DictE
             [(Str ''--ts_type'', Str ''cn''), (Str ''--ts_adapt_type'', Str ''basic''),
              (Str ''--ts_dt'', Num (1 / 100)), (Str ''--ts_save_trajectory'', Num 1)])]),
   Assign [''tj''] (Name ''result.trajectory''),
   Assign [''res''] (Name ''result.results'')]"

(* lines 175 to 183 *)
definition petsc_chem_cell_8 :: cell where
  "petsc_chem_cell_8 = [
   Assert
     (Compare
        (BinOp
           (Call (Name ''abs'')
              [BinOp (Name ''y1'') OpSub (Call (Name ''pyo.value'') [Name ''m.y[180, 1]''] [])] [])
           OpDiv (Name ''y1''))
        CmpLt (Num (1 / 1000))),
   Assert
     (Compare
        (BinOp
           (Call (Name ''abs'')
              [BinOp (Name ''y2'') OpSub (Call (Name ''pyo.value'') [Name ''m.y[180, 2]''] [])] [])
           OpDiv (Name ''y2''))
        CmpLt (Num (1 / 1000))),
   Assert
     (Compare
        (BinOp
           (Call (Name ''abs'')
              [BinOp (Name ''y3'') OpSub (Call (Name ''pyo.value'') [Name ''m.y[180, 3]''] [])] [])
           OpDiv (Name ''y3''))
        CmpLt (Num (1 / 1000))),
   Assert
     (Compare
        (BinOp
           (Call (Name ''abs'')
              [BinOp (Name ''y4'') OpSub (Call (Name ''pyo.value'') [Name ''m.y[180, 4]''] [])] [])
           OpDiv (Name ''y4''))
        CmpLt (Num (1 / 1000))),
   Assert
     (Compare
        (BinOp
           (Call (Name ''abs'')
              [BinOp (Name ''y5'') OpSub (Call (Name ''pyo.value'') [Name ''m.y[180, 5]''] [])] [])
           OpDiv (Name ''y5''))
        CmpLt (Num (1 / 1000))),
   Assert
     (Compare
        (BinOp
           (Call (Name ''abs'')
              [BinOp (Name ''y6'') OpSub (Call (Name ''pyo.value'') [Name ''m.y6[180]''] [])] [])
           OpDiv (Name ''y6''))
        CmpLt (Num (1 / 1000)))]"

(* lines 199 to 209 *)
definition petsc_chem_cell_9 :: cell where
  "petsc_chem_cell_9 = [
   Assign [''a'']
     (Call (Name ''plt.plot'')
        [Name ''m.t'',
         ListComp (Call (Name ''pyo.value'') [Name ''m.y[t, 1]''] []) ''t'' (Name ''m.t'')]
        [(''label'', Str ''y1'')]),
   Assign [''a'']
     (Call (Name ''plt.plot'')
        [Name ''m.t'',
         ListComp (Call (Name ''pyo.value'') [Name ''m.y[t, 2]''] []) ''t'' (Name ''m.t'')]
        [(''label'', Str ''y2'')]),
   Assign [''a'']
     (Call (Name ''plt.plot'')
        [Name ''m.t'',
         ListComp (Call (Name ''pyo.value'') [Name ''m.y[t, 3]''] []) ''t'' (Name ''m.t'')]
        [(''label'', Str ''y3'')]),
   Assign [''a'']
     (Call (Name ''plt.plot'')
        [Name ''m.t'',
         ListComp (Call (Name ''pyo.value'') [Name ''m.y[t, 4]''] []) ''t'' (Name ''m.t'')]
        [(''label'', Str ''y4'')]),
   Assign [''a'']
     (Call (Name ''plt.plot'')
        [Name ''m.t'',
         ListComp (Call (Name ''pyo.value'') [Name ''m.y[t, 5]''] []) ''t'' (Name ''m.t'')]
        [(''label'', Str ''y5'')]),
   Assign [''a'']
     (Call (Name ''plt.plot'')
        [Name ''m.t'',
         ListComp (Call (Name ''pyo.value'') [Name ''m.y6[t]''] []) ''t'' (Name ''m.t'')]
        [(''label'', Str ''y6'')]),
   Assign [''a''] (Call (Name ''plt.legend'') [] []),
   Assign [''a''] (Call (Name ''plt.ylabel'') [Str ''Concentration (mol/l)''] []),
   Assign [''a''] (Call (Name ''plt.xlabel'') [Str ''time (min)''] [])]"

(* lines 223 to 235 *)
definition petsc_chem_cell_10 :: cell where
  "petsc_chem_cell_10 = [
   Assign [''a'']
     (Call (Name ''plt.plot'')
        [Name ''tj.time'', Call (Name ''tj.get_vec'') [Name ''m.y[180, 1]''] []]
        [(''label'', Str ''y1'')]),
   Assign [''a'']
     (Call (Name ''plt.plot'')
        [Name ''tj.time'', Call (Name ''tj.get_vec'') [Name ''m.y[180, 2]''] []]
        [(''label'', Str ''y2'')]),
   Assign [''a'']
     (Call (Name ''plt.plot'')
        [Name ''tj.time'', Call (Name ''tj.get_vec'') [Name ''m.y[180, 3]''] []]
        [(''label'', Str ''y3'')]),
   Assign [''a'']
     (Call (Name ''plt.plot'')
        [Name ''tj.time'', Call (Name ''tj.get_vec'') [Name ''m.y[180, 4]''] []]
        [(''label'', Str ''y4'')]),
   Assign [''a'']
     (Call (Name ''plt.plot'')
        [Name ''tj.time'', Call (Name ''tj.get_vec'') [Name ''m.y[180, 5]''] []]
        [(''label'', Str ''y5'')]),
   Assign [''a'']
     (Call (Name ''plt.plot'')
        [Name ''tj.time'', Call (Name ''tj.get_vec'') [Name ''m.y6[180]''] []]
        [(''label'', Str ''y6'')]),
   Assign [''a''] (Call (Name ''plt.legend'') [] []),
   Assign [''a''] (Call (Name ''plt.ylabel'') [Str ''Concentration (mol/l)''] []),
   Assign [''a''] (Call (Name ''plt.xlabel'') [Str ''time (min)''] [])]"

(* lines 242 to 249 *)
definition petsc_chem_cell_11 :: cell where
  "petsc_chem_cell_11 = [
   Assign [''a'']
     (Call (Name ''plt.plot'')
        [Name ''tj.time'', Call (Name ''tj.get_vec'') [Name ''m.y[180, 2]''] []]
        [(''label'', Str ''y2'')]),
   Assign [''a'']
     (Call (Name ''plt.plot'')
        [Name ''tj.time'', Call (Name ''tj.get_vec'') [Name ''m.y[180, 4]''] []]
        [(''label'', Str ''y4'')]),
   Assign [''a''] (Call (Name ''plt.legend'') [] []),
   Assign [''a''] (Call (Name ''plt.ylabel'') [Str ''Concentration (mol/l)''] []),
   Assign [''a''] (Call (Name ''plt.xlabel'') [Str ''time (min)''] [])]"

(* lines 256 to 263 *)
definition petsc_chem_cell_12 :: cell where
  "petsc_chem_cell_12 = [
   Assign [''a'']
     (Call (Name ''plt.plot'')
        [Subscript (Name ''tj.vecs'') (Str ''_time''),
         Subscript (Name ''tj.vecs'') (Call (Name ''str'') [Name ''m.y[180, 2]''] [])]
        [(''label'', Str ''y2'')]),
   Assign [''a''] (Call (Name ''plt.legend'') [] []),
   Assign [''a''] (Call (Name ''plt.ylabel'') [Str ''Concentration (mol/l)''] []),
   Assign [''a''] (Call (Name ''plt.xlabel'') [Str ''time (min)''] []),
   Assign [''a''] (Call (Name ''plt.xlim'') [Num 0, Num 2] [])]"

(* lines 279 to 282 *)
definition petsc_chem_cell_13 :: cell where
  "petsc_chem_cell_13 = [
   Assign [''tji'']
     (Call (Name ''tj.interpolate'') [Call (Name ''np.linspace'') [Num 0, Num 180, Num 181] []] [])]"

(* lines 289 to 302 *)
definition petsc_chem_cell_14 :: cell where
  "petsc_chem_cell_14 = [
   Assign [''a'']
     (Call (Name ''plt.plot'')
        [Name ''tji.time'', Call (Name ''tji.get_vec'') [Name ''m.y[180, 1]''] []]
        [(''label'', Str ''y1'')]),
   Assign [''a'']
     (Call (Name ''plt.plot'')
        [Name ''tji.time'', Call (Name ''tji.get_vec'') [Name ''m.y[180, 2]''] []]
        [(''label'', Str ''y2'')]),
   Assign [''a'']
     (Call (Name ''plt.plot'')
        [Name ''tji.time'', Call (Name ''tji.get_vec'') [Name ''m.y[180, 3]''] []]
        [(''label'', Str ''y3'')]),
   Assign [''a'']
     (Call (Name ''plt.plot'')
        [Name ''tji.time'', Call (Name ''tji.get_vec'') [Name ''m.y[180, 4]''] []]
        [(''label'', Str ''y4'')]),
   Assign [''a'']
     (Call (Name ''plt.plot'')
        [Name ''tji.time'', Call (Name ''tji.get_vec'') [Name ''m.y[180, 5]''] []]
        [(''label'', Str ''y5'')]),
   Assign [''a'']
     (Call (Name ''plt.plot'')
        [Name ''tji.time'', Call (Name ''tji.get_vec'') [Name ''m.y6[180]''] []]
        [(''label'', Str ''y6'')]),
   Assign [''a''] (Call (Name ''plt.legend'') [] []),
   Assign [''a''] (Call (Name ''plt.ylabel'') [Str ''Concentration (mol/l)''] []),
   Assign [''a''] (Call (Name ''plt.xlabel'') [Str ''time (min)''] [])]"

(* lines 309 to 316 *)
definition petsc_chem_cell_15 :: cell where
  "petsc_chem_cell_15 = [
   Assign [''a'']
     (Call (Name ''plt.plot'')
        [Name ''tji.time'', Call (Name ''tji.get_vec'') [Name ''m.y[180, 2]''] []]
        [(''label'', Str ''y2 interpolate dt=1'')]),
   Assign [''a'']
     (Call (Name ''plt.plot'')
        [Name ''tj.time'', Call (Name ''tj.get_vec'') [Name ''m.y[180, 2]''] []]
        [(''label'', Str ''y2 original'')]),
   Assign [''a''] (Call (Name ''plt.legend'') [] []),
   Assign [''a''] (Call (Name ''plt.ylabel'') [Str ''Concentration (mol/l)''] []),
   Assign [''a''] (Call (Name ''plt.xlabel'') [Str ''time (min)''] []),
   Assign [''a''] (Call (Name ''plt.xlim'') [Num 0, Num 2] [])]"

definition petsc_chem_nb :: notebook where
  "petsc_chem_nb =
    [[], petsc_chem_cell_2, [], petsc_chem_cell_4, petsc_chem_cell_5, [], petsc_chem_cell_7,
     petsc_chem_cell_8, petsc_chem_cell_9, petsc_chem_cell_10, petsc_chem_cell_11,
     petsc_chem_cell_12, petsc_chem_cell_13, petsc_chem_cell_14, petsc_chem_cell_15, []]"

subsection \<open>PETSc Time-stepping Solver - PID Control and Steam Example\<close>

text \<open>
  The code cells of the notebook in \<^verbatim>\<open>src/idaes_examples/notebooks/docs/dae/petsc_pid.ipynb\<close>,
  lines 16 to 385 of the file.
\<close>

(* lines 73 to 82 *)
definition petsc_pid_cell_2 :: cell where
  "petsc_pid_cell_2 = [
   Import ''numpy as np'',
   Import ''matplotlib.pyplot as plt'',
   Import ''pyomo.environ as pyo'',
   Import ''pyomo.dae as pyodae'',
   Import ''idaes.core.solvers.petsc as petsc'',
   Import ''idaes_examples.mod.dae.petsc.pid_steam_tank as pid'',
   ImportFrom ''idaes.core.util.math'' [''smooth_max'', ''smooth_min'']]"

(* lines 106 to 112 *)
definition petsc_pid_cell_4 :: cell where
  "petsc_pid_cell_4 = [
   Assign [''m'']
     (Call (Name ''pid.create_model'') []
        [(''time_set'', ListE [Num 0, Num 12]), (''nfe'', Num 1),
         (''calc_integ'', Constant ''True'')])]"

(* lines 126 to 139 *)
definition petsc_pid_cell_5 :: cell where
  "petsc_pid_cell_5 = [
   Assign [''result'']
     (Call (Name ''petsc.petsc_dae_by_time_element'') [Name ''m'']
        [(''time'', Name ''m.fs.time''),
         (''ts_options'',
           DictE
             [(Str ''--ts_type'', Str ''beuler''), (Str ''--ts_dt'', Num (1 / 10)),
              (Str ''--ts_monitor'', Str ''''), (Str ''--ts_save_trajectory'', Num 1)])]),
   Assign [''tj''] (Name ''result.trajectory''),
   Assign [''res''] (Name ''result.results'')]"

(* lines 155 to 159 *)
definition petsc_pid_cell_6 :: cell where
  "petsc_pid_cell_6 = [
   Assign [''a'']
     (Call (Name ''plt.plot'')
        [Name ''tj.time'', Call (Name ''tj.get_vec'') [Name ''m.fs.valve_1.valve_opening[12]''] []]
        []),
   Assign [''a''] (Call (Name ''plt.ylabel'') [Str ''valve 1 fraction open''] []),
   Assign [''a''] (Call (Name ''plt.xlabel'') [Str ''time (s)''] [])]"

(* lines 166 to 170 *)
definition petsc_pid_cell_7 :: cell where
  "petsc_pid_cell_7 = [
   Assign [''a'']
     (Call (Name ''plt.plot'')
        [Name ''tj.time'',
         Call (Name ''tj.get_vec'')
           [Name ''m.fs.tank.control_volume.properties_out[12].pressure''] []]
        []),
   Assign [''a''] (Call (Name ''plt.ylabel'') [Str ''tank pressure (Pa)''] []),
   Assign [''a''] (Call (Name ''plt.xlabel'') [Str ''time (s)''] [])]"

(* lines 186 to 215 *)
definition petsc_pid_cell_8 :: cell where
  "petsc_pid_cell_8 = [
   Assign [''m'']
     (Call (Name ''pid.create_model'') []
        [(''time_set'', ListE [Num 0, Num 24]), (''nfe'', Num 1),
         (''calc_integ'', Constant ''True'')]),
   Assign [''m.fs.time_var''] (Call (Name ''pyo.Var'') [Name ''m.fs.time''] []),
   ExprStmt (Call (Name ''m.fs.valve_1.control_volume.properties_in[0].pressure.unfix'') [] []),
   ExprStmt (Call (Name ''m.fs.valve_1.control_volume.properties_in[24].pressure.unfix'') [] []),
   ExprStmt (Call (Name ''m.fs.time_var[0].fix'') [Call (Name ''m.fs.time.first'') [] []] []),
   FunctionDef ''inlet_pressure_eqn'' [Call (Name ''m.fs.Constraint'') [Name ''m.fs.time''] []]
     [''b'', ''t'']
     [
      Return
        (Compare (Name ''b.valve_1.control_volume.properties_in[t].pressure'') CmpEq
           (Call (Name ''smooth_min'')
              [Num 600000,
               Call (Name ''smooth_max'')
                 [Num 500000,
                  BinOp (BinOp (Num 50000) OpMult (BinOp (Name ''b.time_var[t]'') OpSub (Num 10)))
                    OpAdd (Num 500000)]
                 []]
              []))]]"

(* lines 222 to 237 *)
definition petsc_pid_cell_9 :: cell where
  "petsc_pid_cell_9 = [
   Assign [''result'']
     (Call (Name ''petsc.petsc_dae_by_time_element'') [Name ''m'']
        [(''time'', Name ''m.fs.time''), (''timevar'', Name ''m.fs.time_var''),
         (''ts_options'',
           DictE
             [(Str ''--ts_type'', Str ''beuler''), (Str ''--ts_dt'', Num (1 / 10)),
              (Str ''--ts_monitor'', Str ''''), (Str ''--ts_save_trajectory'', Num 1)])]),
   Assign [''tj''] (Name ''result.trajectory''),
   Assign [''res''] (Name ''result.results'')]"

(* lines 244 to 250 *)
definition petsc_pid_cell_10 :: cell where
  "petsc_pid_cell_10 = [
   Assign [''a'']
     (Call (Name ''plt.plot'')
        [Name ''tj.time'',
         Call (Name ''tj.get_vec'')
           [Name ''m.fs.valve_1.control_volume.properties_in[24].pressure''] []]
        []),
   Assign [''a''] (Call (Name ''plt.ylabel'') [Str ''inlet pressure (Pa)''] []),
   Assign [''a''] (Call (Name ''plt.xlabel'') [Str ''time (s)''] [])]"

(* lines 257 to 261 *)
definition petsc_pid_cell_11 :: cell where
  "petsc_pid_cell_11 = [
   Assign [''a'']
     (Call (Name ''plt.plot'')
        [Name ''tj.time'', Call (Name ''tj.get_vec'') [Name ''m.fs.valve_1.valve_opening[24]''] []]
        []),
   Assign [''a''] (Call (Name ''plt.ylabel'') [Str ''valve 1 fraction open''] []),
   Assign [''a''] (Call (Name ''plt.xlabel'') [Str ''time (s)''] [])]"

(* lines 268 to 272 *)
definition petsc_pid_cell_12 :: cell where
  "petsc_pid_cell_12 = [
   Assign [''a'']
     (Call (Name ''plt.plot'')
        [Name ''tj.time'',
         Call (Name ''tj.get_vec'')
           [Name ''m.fs.tank.control_volume.properties_out[24].pressure''] []]
        []),
   Assign [''a''] (Call (Name ''plt.ylabel'') [Str ''tank pressure (Pa)''] []),
   Assign [''a''] (Call (Name ''plt.xlabel'') [Str ''time (s)''] [])]"

(* lines 288 to 321 *)
definition petsc_pid_cell_13 :: cell where
  "petsc_pid_cell_13 = [
   Assign [''m'']
     (Call (Name ''pid.create_model'') []
        [(''time_set'', ListE [Num 0, Num 10, Num 12, Num 24]), (''nfe'', Num 3),
         (''calc_integ'', Constant ''True'')]),
   Assign [''m.fs.time_var''] (Call (Name ''pyo.Var'') [Name ''m.fs.time''] []),
   ExprStmt
     (Call (Name ''m.fs.valve_1.control_volume.properties_in[0].pressure.fix'') [Num 500000] []),
   ExprStmt
     (Call (Name ''m.fs.valve_1.control_volume.properties_in[10].pressure.fix'') [Num 500000] []),
   ExprStmt
     (Call (Name ''m.fs.valve_1.control_volume.properties_in[12].pressure.set_value'')
        [Num 600000] []),
   ExprStmt (Call (Name ''m.fs.valve_1.control_volume.properties_in[12].pressure.unfix'') [] []),
   ExprStmt
     (Call (Name ''m.fs.valve_1.control_volume.properties_in[24].pressure.fix'') [Num 600000] []),
   FunctionDef ''inlet_pressure_eqn'' [Call (Name ''m.fs.Constraint'') [Name ''m.fs.time''] []]
     [''b'', ''t'']
     [
      Return
        (Compare (Name ''b.valve_1.control_volume.properties_in[t].pressure'') CmpEq
           (BinOp (BinOp (Num 50000) OpMult (BinOp (Name ''b.time_var[t]'') OpSub (Num 10))) OpAdd
              (Num 500000)))],
   ExprStmt (Call (Name ''m.fs.inlet_pressure_eqn.deactivate'') [] []),
   ExprStmt (Call (Name ''m.fs.inlet_pressure_eqn[12].activate'') [] [])]"

(* lines 328 to 343 *)
definition petsc_pid_cell_14 :: cell where
  "petsc_pid_cell_14 = [
   Assign [''result'']
     (Call (Name ''petsc.petsc_dae_by_time_element'') [Name ''m'']
        [(''time'', Name ''m.fs.time''), (''timevar'', Name ''m.fs.time_var''),
         (''ts_options'',
           DictE
             [(Str ''--ts_type'', Str ''beuler''), (Str ''--ts_dt'', Num (1 / 10)),
              (Str ''--ts_monitor'', Str ''''), (Str ''--ts_save_trajectory'', Num 1)])]),
   Assign [''tj''] (Name ''result.trajectory''),
   Assign [''res''] (Name ''result.results'')]"

(* lines 350 to 356 *)
definition petsc_pid_cell_15 :: cell where
  "petsc_pid_cell_15 = [
   Assign [''a'']
     (Call (Name ''plt.plot'')
        [Name ''tj.time'',
         Call (Name ''tj.get_vec'')
           [Name ''m.fs.valve_1.control_volume.properties_in[24].pressure''] []]
        []),
   Assign [''a''] (Call (Name ''plt.ylabel'') [Str ''inlet pressure (Pa)''] []),
   Assign [''a''] (Call (Name ''plt.xlabel'') [Str ''time (s)''] [])]"

(* lines 363 to 367 *)
definition petsc_pid_cell_16 :: cell where
  "petsc_pid_cell_16 = [
   Assign [''a'']
     (Call (Name ''plt.plot'')
        [Name ''tj.time'', Call (Name ''tj.get_vec'') [Name ''m.fs.valve_1.valve_opening[24]''] []]
        []),
   Assign [''a''] (Call (Name ''plt.ylabel'') [Str ''valve 1 fraction open''] []),
   Assign [''a''] (Call (Name ''plt.xlabel'') [Str ''time (s)''] [])]"

(* lines 374 to 378 *)
definition petsc_pid_cell_17 :: cell where
  "petsc_pid_cell_17 = [
   Assign [''a'']
     (Call (Name ''plt.plot'')
        [Name ''tj.time'',
         Call (Name ''tj.get_vec'')
           [Name ''m.fs.tank.control_volume.properties_out[24].pressure''] []]
        []),
   Assign [''a''] (Call (Name ''plt.ylabel'') [Str ''tank pressure (Pa)''] []),
   Assign [''a''] (Call (Name ''plt.xlabel'') [Str ''time (s)''] [])]"

definition petsc_pid_nb :: notebook where
  "petsc_pid_nb =
    [[], petsc_pid_cell_2, [], petsc_pid_cell_4, petsc_pid_cell_5, petsc_pid_cell_6,
     petsc_pid_cell_7, petsc_pid_cell_8, petsc_pid_cell_9, petsc_pid_cell_10, petsc_pid_cell_11,
     petsc_pid_cell_12, petsc_pid_cell_13, petsc_pid_cell_14, petsc_pid_cell_15, petsc_pid_cell_16,
     petsc_pid_cell_17, []]"

subsection \<open>Autothermal Reformer Flowsheet Optimization with PySMO Surrogate Object\<close>

text \<open>
  The code cells of the notebook in \<^verbatim>\<open>src/idaes_examples/notebooks/docs/dae/petsc_pid.ipynb\<close>,
  lines 427 to 878 of the file.
\<close>

(* lines 481 to 491 *)
definition pysmo_cell_2 :: cell where
  "pysmo_cell_2 = [
   ImportFrom ''IPython.display'' [''Image''],
   ImportFrom ''pathlib'' [''Path''],
   FunctionDef ''datafile_path'' [] [''name'']
     [
      Return (BinOp (Call (Name ''Path'') [Str ''..''] []) OpDiv (Name ''name''))],
   ExprStmt (Call (Name ''Image'') [Call (Name ''datafile_path'') [Str ''AR_PFD.png''] []] [])]"

(* lines 512 to 542 *)
definition pysmo_cell_3 :: cell where
  "pysmo_cell_3 = [
   Import ''os'',
   Import ''numpy as np'',
   Import ''pandas as pd'',
   ImportFrom ''pyomo.environ''
     [''ConcreteModel'', ''SolverFactory'', ''value'', ''Var'', ''Constraint'', ''Set'',
      ''Objective'', ''maximize''],
   ImportFrom ''pyomo.common.timing'' [''TicTocTimer''],
   ImportFrom ''idaes.core.surrogate.sampling.data_utils'' [''split_training_validation''],
   ImportFrom ''idaes.core.surrogate.pysmo_surrogate'' [''PysmoPolyTrainer'', ''PysmoSurrogate''],
   ImportFrom ''idaes.core.surrogate.plotting.sm_plotter''
     [''surrogate_scatter2D'', ''surrogate_parity'', ''surrogate_residual''],
   ImportFrom ''idaes.core.surrogate.surrogate_block'' [''SurrogateBlock''],
   ImportFrom ''idaes.core'' [''FlowsheetBlock''],
   ImportFrom ''idaes.core.util.convergence.convergence_base'' [''_run_ipopt_with_stats'']]"

(* lines 563 to 581 *)
definition pysmo_cell_4 :: cell where
  "pysmo_cell_4 = [
   ExprStmt
     (Call (Name ''np.set_printoptions'') []
        [(''precision'', Num 6), (''suppress'', Constant ''True'')]),
   Assign [''csv_data'']
     (Call (Name ''pd.read_csv'') [Call (Name ''datafile_path'') [Str ''reformer-data.csv''] []] []),
   Assign [''data''] (Call (Name ''csv_data.sample'') [] [(''n'', Num 100)]),
   Assign [''input_data''] (Name ''data.iloc[:, :2]''),
   Assign [''output_data''] (Name ''data.iloc[:, 2:]''),
   Assign [''input_labels''] (Call (Name ''list'') [Name ''input_data.columns''] []),
   Assign [''output_labels''] (Call (Name ''list'') [Name ''output_data.columns''] []),
   Assign [''n_data''] (Name ''data[input_labels[0]].size''),
   Assign [''data_training'', ''data_validation'']
     (Call (Name ''split_training_validation'') [Name ''data'', Num (8 / 10)]
        [(''seed'', Name ''n_data'')])]"

(* lines 606 to 651 *)
definition pysmo_cell_5 :: cell where
  "pysmo_cell_5 = [
   ImportFrom ''io'' [''StringIO''],
   Import ''sys'',
   Assign [''stream''] (Call (Name ''StringIO'') [] []),
   Assign [''oldstdout''] (Name ''sys.stdout''),
   Assign [''sys.stdout''] (Name ''stream''),
   Assign [''trainer'']
     (Call (Name ''PysmoPolyTrainer'') []
        [(''input_labels'', Name ''input_labels''), (''output_labels'', Name ''output_labels''),
         (''training_dataframe'', Name ''data_training'')]),
   Assign [''trainer.config.maximum_polynomial_order''] (Num 6),
   Assign [''trainer.config.multinomials''] (Constant ''True''),
   Assign [''trainer.config.training_split''] (Num (8 / 10)),
   Assign [''trainer.config.number_of_crossvalidations''] (Num 10),
   Assign [''poly_train''] (Call (Name ''trainer.train_surrogate'') [] []),
   Assign [''xmin'', ''xmax'']
     (TupleE [ListE [Num (1 / 10), Num (8 / 10)], ListE [Num (8 / 10), Num (12 / 10)]]),
   Assign [''input_bounds'']
     (DictComp (Name ''input_labels[i]'') (TupleE [Name ''xmin[i]'', Name ''xmax[i]'']) ''i''
        (Call (Name ''range'') [Call (Name ''len'') [Name ''input_labels''] []] [])),
   Assign [''poly_surr'']
     (Call (Name ''PysmoSurrogate'')
        [Name ''poly_train'', Name ''input_labels'', Name ''output_labels'', Name ''input_bounds'']
        []),
   Assign [''model'']
     (Call (Name ''poly_surr.save_to_file'') [Str ''pysmo_poly_surrogate.json'']
        [(''overwrite'', Constant ''True'')]),
   Assign [''sys.stdout''] (Name ''oldstdout''),
   Assign [''celloutput'']
     (Call (Attribute (Call (Name ''stream.getvalue'') [] []) ''split'') [Str [CHR 0x0A]] []),
   For ''line'' (Name ''celloutput[:50]'') [ExprStmt (Call (Name ''print'') [Name ''line''] [])],
   ExprStmt (Call (Name ''print'') [Str ''.''] []),
   ExprStmt (Call (Name ''print'') [Str ''.''] []),
   ExprStmt (Call (Name ''print'') [Str ''.''] []),
   For ''line'' (Name ''celloutput[-50:]'') [ExprStmt (Call (Name ''print'') [Name ''line''] [])]]"

(* lines 674 to 679 *)
definition pysmo_cell_6 :: cell where
  "pysmo_cell_6 = [
   ExprStmt
     (Call (Name ''surrogate_scatter2D'') [Name ''poly_surr'', Name ''data_training'']
        [(''filename'', Str ''pysmo_poly_train_scatter2D.pdf'')]),
   ExprStmt
     (Call (Name ''surrogate_parity'') [Name ''poly_surr'', Name ''data_training'']
        [(''filename'', Str ''pysmo_poly_train_parity.pdf'')]),
   ExprStmt
     (Call (Name ''surrogate_residual'') [Name ''poly_surr'', Name ''data_training'']
        [(''filename'', Str ''pysmo_poly_train_residual.pdf'')])]"

(* lines 695 to 700 *)
definition pysmo_cell_7 :: cell where
  "pysmo_cell_7 = [
   ExprStmt
     (Call (Name ''surrogate_scatter2D'') [Name ''poly_surr'', Name ''data_validation'']
        [(''filename'', Str ''pysmo_poly_val_scatter2D.pdf'')]),
   ExprStmt
     (Call (Name ''surrogate_parity'') [Name ''poly_surr'', Name ''data_validation'']
        [(''filename'', Str ''pysmo_poly_val_parity.pdf'')]),
   ExprStmt
     (Call (Name ''surrogate_residual'') [Name ''poly_surr'', Name ''data_validation'']
        [(''filename'', Str ''pysmo_poly_val_residual.pdf'')])]"

(* lines 730 to 797 *)
definition pysmo_cell_8 :: cell where
  "pysmo_cell_8 = [
   Assign [''m''] (Call (Name ''ConcreteModel'') [] []),
   Assign [''m.fs''] (Call (Name ''FlowsheetBlock'') [] [(''dynamic'', Constant ''False'')]),
   Assign [''m.fs.bypass_frac'']
     (Call (Name ''Var'') []
        [(''initialize'', Num (8 / 10)), (''bounds'', ListE [Num (1 / 10), Num (8 / 10)]),
         (''doc'', Str ''natural gas bypass fraction'')]),
   Assign [''m.fs.ng_steam_ratio'']
     (Call (Name ''Var'') []
        [(''initialize'', Num (8 / 10)), (''bounds'', ListE [Num (8 / 10), Num (12 / 10)]),
         (''doc'', Str ''natural gas to steam ratio'')]),
   Assign [''m.fs.steam_flowrate'']
     (Call (Name ''Var'') [] [(''initialize'', Num (2 / 10)), (''doc'', Str ''steam flowrate'')]),
   Assign [''m.fs.reformer_duty'']
     (Call (Name ''Var'') [] [(''initialize'', Num 10000), (''doc'', Str ''reformer heat duty'')]),
   Assign [''m.fs.AR'']
     (Call (Name ''Var'') [] [(''initialize'', Num 0), (''doc'', Str ''AR fraction'')]),
   Assign [''m.fs.C2H6'']
     (Call (Name ''Var'') [] [(''initialize'', Num 0), (''doc'', Str ''C2H6 fraction'')]),
   Assign [''m.fs.C3H8'']
     (Call (Name ''Var'') [] [(''initialize'', Num 0), (''doc'', Str ''C3H8 fraction'')]),
   Assign [''m.fs.C4H10'']
     (Call (Name ''Var'') [] [(''initialize'', Num 0), (''doc'', Str ''C4H10 fraction'')]),
   Assign [''m.fs.CH4'']
     (Call (Name ''Var'') [] [(''initialize'', Num 0), (''doc'', Str ''CH4 fraction'')]),
   Assign [''m.fs.CO'']
     (Call (Name ''Var'') [] [(''initialize'', Num 0), (''doc'', Str ''CO fraction'')]),
   Assign [''m.fs.CO2'']
     (Call (Name ''Var'') [] [(''initialize'', Num 0), (''doc'', Str ''CO2 fraction'')]),
   Assign [''m.fs.H2'']
     (Call (Name ''Var'') [] [(''initialize'', Num 0), (''doc'', Str ''H2 fraction'')]),
   Assign [''m.fs.H2O'']
     (Call (Name ''Var'') [] [(''initialize'', Num 0), (''doc'', Str ''H2O fraction'')]),
   Assign [''m.fs.N2'']
     (Call (Name ''Var'') [] [(''initialize'', Num 0), (''doc'', Str ''N2 fraction'')]),
   Assign [''m.fs.O2'']
     (Call (Name ''Var'') [] [(''initialize'', Num 0), (''doc'', Str ''O2 fraction'')]),
   Assign [''inputs''] (ListE [Name ''m.fs.bypass_frac'', Name ''m.fs.ng_steam_ratio'']),
   Assign [''outputs'']
     (ListE
        [Name ''m.fs.steam_flowrate'', Name ''m.fs.reformer_duty'', Name ''m.fs.AR'',
         Name ''m.fs.C2H6'', Name ''m.fs.C4H10'', Name ''m.fs.C3H8'', Name ''m.fs.CH4'',
         Name ''m.fs.CO'', Name ''m.fs.CO2'', Name ''m.fs.H2'', Name ''m.fs.H2O'', Name ''m.fs.N2'',
         Name ''m.fs.O2'']),
   Assign [''stream''] (Call (Name ''StringIO'') [] []),
   Assign [''oldstdout''] (Name ''sys.stdout''),
   Assign [''sys.stdout''] (Name ''stream''),
   Assign [''surrogate'']
     (Call (Name ''PysmoSurrogate.load_from_file'') [Str ''pysmo_poly_surrogate.json''] []),
   Assign [''m.fs.surrogate'']
     (Call (Name ''SurrogateBlock'') [] [(''concrete'', Constant ''True'')]),
   ExprStmt
     (Call (Name ''m.fs.surrogate.build_model'') [Name ''surrogate'']
        [(''input_vars'', Name ''inputs''), (''output_vars'', Name ''outputs'')]),
   Assign [''sys.stdout''] (Name ''oldstdout''),
   ExprStmt (Call (Name ''m.fs.bypass_frac.fix'') [Num (5 / 10)] []),
   ExprStmt (Call (Name ''m.fs.ng_steam_ratio.fix'') [Num 1] []),
   Assign [''solver''] (Call (Name ''SolverFactory'') [Str ''ipopt''] []),
   Assign [''status_obj'', ''solved'', ''iters'', ''time'', ''*_'']
     (Call (Name ''_run_ipopt_with_stats'') [Name ''m'', Name ''solver''] [])]"

(* lines 811 to 831 *)
definition pysmo_cell_9 :: cell where
  "pysmo_cell_9 = [
   ExprStmt (Call (Name ''print'') [Str ''Model status: '', Name ''status_obj''] []),
   ExprStmt (Call (Name ''print'') [Str ''Solution optimal: '', Name ''solved''] []),
   ExprStmt (Call (Name ''print'') [Str ''IPOPT iterations: '', Name ''iters''] []),
   ExprStmt (Call (Name ''print'') [Str ''IPOPT runtime: '', Name ''time''] []),
   ExprStmt (Call (Name ''print'') [] []),
   ExprStmt
     (Call (Name ''print'')
        [Str ''Steam flowrate = '', Call (Name ''value'') [Name ''m.fs.steam_flowrate''] []] []),
   ExprStmt
     (Call (Name ''print'')
        [Str ''Reformer duty = '', Call (Name ''value'') [Name ''m.fs.reformer_duty''] []] []),
   ExprStmt
     (Call (Name ''print'')
        [Str ''Mole Fraction Ar = '', Call (Name ''value'') [Name ''m.fs.AR''] []] []),
   ExprStmt
     (Call (Name ''print'')
        [Str ''Mole Fraction C2H6 = '', Call (Name ''value'') [Name ''m.fs.C2H6''] []] []),
   ExprStmt
     (Call (Name ''print'')
        [Str ''Mole Fraction C3H8 = '', Call (Name ''value'') [Name ''m.fs.C3H8''] []] []),
   ExprStmt
     (Call (Name ''print'')
        [Str ''Mole Fraction C4H10 = '', Call (Name ''value'') [Name ''m.fs.C4H10''] []] []),
   ExprStmt
     (Call (Name ''print'')
        [Str ''Mole Fraction CH4 = '', Call (Name ''value'') [Name ''m.fs.CH4''] []] []),
   ExprStmt
     (Call (Name ''print'')
        [Str ''Mole Fraction CO = '', Call (Name ''value'') [Name ''m.fs.CO''] []] []),
   ExprStmt
     (Call (Name ''print'')
        [Str ''Mole Fraction CO2 = '', Call (Name ''value'') [Name ''m.fs.CO2''] []] []),
   ExprStmt
     (Call (Name ''print'')
        [Str ''Mole Fraction H2 = '', Call (Name ''value'') [Name ''m.fs.H2''] []] []),
   ExprStmt
     (Call (Name ''print'')
        [Str ''Mole Fraction H2O = '', Call (Name ''value'') [Name ''m.fs.H2O''] []] []),
   ExprStmt
     (Call (Name ''print'')
        [Str ''Mole Fraction N2 = '', Call (Name ''value'') [Name ''m.fs.N2''] []] []),
   ExprStmt
     (Call (Name ''print'')
        [Str ''Mole Fraction O2 = '', Call (Name ''value'') [Name ''m.fs.O2''] []] [])]"

(* lines 850 to 871 *)
definition pysmo_cell_10 :: cell where
  "pysmo_cell_10 = [
   ExprStmt (Call (Name ''m.fs.bypass_frac.unfix'') [] []),
   ExprStmt (Call (Name ''m.fs.ng_steam_ratio.unfix'') [] []),
   Assign [''m.fs.obj'']
     (Call (Name ''Objective'') [] [(''expr'', Name ''m.fs.H2''), (''sense'', Name ''maximize'')]),
   Assign [''m.fs.con'']
     (Call (Name ''Constraint'') []
        [(''expr'', Compare (Name ''m.fs.N2'') CmpLtE (Num (34 / 100)))]),
   Assign [''tmr''] (Call (Name ''TicTocTimer'') [] []),
   Assign [''status''] (Call (Name ''solver.solve'') [Name ''m''] [(''tee'', Constant ''True'')]),
   Assign [''solve_time''] (Call (Name ''tmr.toc'') [Str ''solve''] []),
   Assert
     (Compare
        (Call (Name ''abs'')
           [BinOp (Call (Name ''value'') [Name ''m.fs.H2''] []) OpSub (Num (33 / 100))] [])
        CmpLtE (Num (1 / 100))),
   Assert
     (Call (Name ''value'')
        [Compare (Name ''m.fs.N2'') CmpLtE (BinOp (Num (4 / 10)) OpAdd (Num (1 / 100000000)))] []),
   ExprStmt (Call (Name ''print'') [Str ''Model status: '', Name ''status''] []),
   ExprStmt (Call (Name ''print'') [Str ''Solve time: '', Name ''solve_time''] []),
   For ''var'' (Name ''inputs'')
     [
      ExprStmt
        (Call (Name ''print'')
           [Name ''var.name'', Str '': '', Call (Name ''value'') [Name ''var''] []] [])],
   For ''var'' (Name ''outputs'')
     [
      ExprStmt
        (Call (Name ''print'')
           [Name ''var.name'', Str '': '', Call (Name ''value'') [Name ''var''] []] [])]]"

definition pysmo_nb :: notebook where
  "pysmo_nb =
    [[], pysmo_cell_2, pysmo_cell_3, pysmo_cell_4, pysmo_cell_5, pysmo_cell_6, pysmo_cell_7,
     pysmo_cell_8, pysmo_cell_9, pysmo_cell_10, []]"

subsection \<open>Autothermal Reformer Flowsheet Optimization with ALAMO Surrogate Object\<close>

text \<open>
  The code cells of the notebook in \<^verbatim>\<open>src/idaes_examples/notebooks/docs/dae/petsc_pid.ipynb\<close>,
  lines 915 to 1384 of the file.
\<close>

(* lines 969 to 979 *)
definition alamo_cell_2 :: cell where
  "alamo_cell_2 = [
   ImportFrom ''IPython.display'' [''Image''],
   ImportFrom ''pathlib'' [''Path''],
   FunctionDef ''datafile_path'' [] [''name'']
     [
      Return (BinOp (Call (Name ''Path'') [Str ''..''] []) OpDiv (Name ''name''))],
   ExprStmt (Call (Name ''Image'') [Call (Name ''datafile_path'') [Str ''AR_PFD.png''] []] [])]"

(* lines 1000 to 1030 *)
definition alamo_cell_3 :: cell where
  "alamo_cell_3 = [
   Import ''os'',
   Import ''numpy as np'',
   Import ''pandas as pd'',
   ImportFrom ''pyomo.environ''
     [''ConcreteModel'', ''SolverFactory'', ''value'', ''Var'', ''Constraint'', ''Set'',
      ''Objective'', ''maximize''],
   ImportFrom ''pyomo.common.timing'' [''TicTocTimer''],
   ImportFrom ''idaes.core.surrogate.sampling.data_utils'' [''split_training_validation''],
   ImportFrom ''idaes.core.surrogate.alamopy'' [''AlamoTrainer'', ''AlamoSurrogate''],
   ImportFrom ''idaes.core.surrogate.plotting.sm_plotter''
     [''surrogate_scatter2D'', ''surrogate_parity'', ''surrogate_residual''],
   ImportFrom ''idaes.core.surrogate.surrogate_block'' [''SurrogateBlock''],
   ImportFrom ''idaes.core'' [''FlowsheetBlock''],
   ImportFrom ''idaes.core.util.convergence.convergence_base'' [''_run_ipopt_with_stats'']]"

(* lines 1051 to 1069 *)
definition alamo_cell_4 :: cell where
  "alamo_cell_4 = [
   ExprStmt
     (Call (Name ''np.set_printoptions'') []
        [(''precision'', Num 6), (''suppress'', Constant ''True'')]),
   Assign [''csv_data'']
     (Call (Name ''pd.read_csv'') [Call (Name ''datafile_path'') [Str ''reformer-data.csv''] []] []),
   Assign [''data''] (Call (Name ''csv_data.sample'') [] [(''n'', Num 100)]),
   Assign [''input_data''] (Name ''data.iloc[:, :2]''),
   Assign [''output_data''] (Name ''data.iloc[:, 2:]''),
   Assign [''input_labels''] (Name ''input_data.columns''),
   Assign [''output_labels''] (Name ''output_data.columns''),
   Assign [''n_data''] (Name ''data[input_labels[0]].size''),
   Assign [''data_training'', ''data_validation'']
     (Call (Name ''split_training_validation'') [Name ''data'', Num (8 / 10)]
        [(''seed'', Name ''n_data'')])]"

(* lines 1094 to 1161 *)
definition alamo_cell_5 :: cell where
  "alamo_cell_5 = [
   ImportFrom ''io'' [''StringIO''],
   Import ''sys'',
   Assign [''stream''] (Call (Name ''StringIO'') [] []),
   Assign [''oldstdout''] (Name ''sys.stdout''),
   Assign [''sys.stdout''] (Name ''stream''),
   Assign [''trainer'']
     (Call (Name ''AlamoTrainer'') []
        [(''input_labels'', Name ''input_labels''), (''output_labels'', Name ''output_labels''),
         (''training_dataframe'', Name ''data_training'')]),
   Assign [''trainer.config.constant''] (Constant ''True''),
   Assign [''trainer.config.linfcns''] (Constant ''True''),
   Assign [''trainer.config.multi2power''] (ListE [Num 1, Num 2]),
   Assign [''trainer.config.monomialpower''] (ListE [Num 2, Num 3]),
   Assign [''trainer.config.ratiopower''] (ListE [Num 1, Num 2]),
   Assign [''trainer.config.maxterms'']
     (BinOp (ListE [Num 10]) OpMult (Call (Name ''len'') [Name ''output_labels''] [])),
   Assign [''trainer.config.filename'']
     (Call (Name ''os.path.join'') [Call (Name ''os.getcwd'') [] [], Str ''alamo_run.alm''] []),
   Assign [''trainer.config.overwrite_files''] (Constant ''True''),
   Assign [''has_alamo''] (Constant ''True''),
   TryExcept
     [
      Assign [''success'', ''alm_surr'', ''msg''] (Call (Name ''trainer.train_surrogate'') [] [])]
     ''FileNotFoundError'' ''err''
     [
      IfStmt
        (Compare (Str ''Could not find ALAMO'') CmpIn (Call (Name ''str'') [Name ''err''] []))
        [
         ExprStmt
           (Call (Name ''print'')
              [Str ''ALAMO not found. You must install ALAMO to use this notebook''] []),
         Assign [''has_alamo''] (Constant ''False'')]
        [
         Raise]],
   IfStmt (Name ''has_alamo'')
     [
      Assign [''model'']
        (Call (Name ''alm_surr.save_to_file'') [Str ''alamo_surrogate.json'']
           [(''overwrite'', Constant ''True'')]),
      Assign [''surrogate_expressions''] (Subscript (Name ''trainer._results'') (Str ''Model'')),
      Assign [''input_labels''] (Name ''trainer._input_labels''),
      Assign [''output_labels''] (Name ''trainer._output_labels''),
      Assign [''xmin'', ''xmax'']
        (TupleE [ListE [Num (1 / 10), Num (8 / 10)], ListE [Num (8 / 10), Num (12 / 10)]]),
      Assign [''input_bounds'']
        (DictComp (Name ''input_labels[i]'') (TupleE [Name ''xmin[i]'', Name ''xmax[i]'']) ''i''
           (Call (Name ''range'') [Call (Name ''len'') [Name ''input_labels''] []] [])),
      Assign [''alm_surr'']
        (Call (Name ''AlamoSurrogate'')
           [Name ''surrogate_expressions'', Name ''input_labels'', Name ''output_labels'',
            Name ''input_bounds'']
           []),
      Assign [''sys.stdout''] (Name ''oldstdout''),
      Assign [''celloutput'']
        (Call (Attribute (Call (Name ''stream.getvalue'') [] []) ''split'') [Str [CHR 0x0A]] []),
      For ''line'' (Name ''celloutput[:50]'') [ExprStmt (Call (Name ''print'') [Name ''line''] [])],
      ExprStmt (Call (Name ''print'') [Str ''.''] []),
      ExprStmt (Call (Name ''print'') [Str ''.''] []),
      ExprStmt (Call (Name ''print'') [Str ''.''] []),
      For ''line'' (Name ''celloutput[-50:]'') [ExprStmt (Call (Name ''print'') [Name ''line''] [])]]
     []]"

(* lines 1184 to 1190 *)
definition alamo_cell_6 :: cell where
  "alamo_cell_6 = [
   IfStmt (Name ''has_alamo'')
     [
      ExprStmt
        (Call (Name ''surrogate_scatter2D'') [Name ''alm_surr'', Name ''data_training'']
           [(''filename'', Str ''alamo_train_scatter2D.pdf'')]),
      ExprStmt
        (Call (Name ''surrogate_parity'') [Name ''alm_surr'', Name ''data_training'']
           [(''filename'', Str ''alamo_train_parity.pdf'')]),
      ExprStmt
        (Call (Name ''surrogate_residual'') [Name ''alm_surr'', Name ''data_training'']
           [(''filename'', Str ''alamo_train_residual.pdf'')])]
     []]"

(* lines 1206 to 1212 *)
definition alamo_cell_7 :: cell where
  "alamo_cell_7 = [
   IfStmt (Name ''has_alamo'')
     [
      ExprStmt
        (Call (Name ''surrogate_scatter2D'') [Name ''alm_surr'', Name ''data_validation'']
           [(''filename'', Str ''alamo_val_scatter2D.pdf'')]),
      ExprStmt
        (Call (Name ''surrogate_parity'') [Name ''alm_surr'', Name ''data_validation'']
           [(''filename'', Str ''alamo_val_parity.pdf'')]),
      ExprStmt
        (Call (Name ''surrogate_residual'') [Name ''alm_surr'', Name ''data_validation'']
           [(''filename'', Str ''alamo_val_residual.pdf'')])]
     []]"

(* lines 1240 to 1301 *)
definition alamo_cell_8 :: cell where
  "alamo_cell_8 = [
   IfStmt (Name ''has_alamo'')
     [
      Assign [''m''] (Call (Name ''ConcreteModel'') [] []),
      Assign [''m.fs''] (Call (Name ''FlowsheetBlock'') [] [(''dynamic'', Constant ''False'')]),
      Assign [''m.fs.bypass_frac'']
        (Call (Name ''Var'') []
           [(''initialize'', Num (8 / 10)), (''bounds'', ListE [Num (1 / 10), Num (8 / 10)]),
            (''doc'', Str ''natural gas bypass fraction'')]),
      Assign [''m.fs.ng_steam_ratio'']
        (Call (Name ''Var'') []
           [(''initialize'', Num (8 / 10)), (''bounds'', ListE [Num (8 / 10), Num (12 / 10)]),
            (''doc'', Str ''natural gas to steam ratio'')]),
      Assign [''m.fs.steam_flowrate'']
        (Call (Name ''Var'') [] [(''initialize'', Num (2 / 10)), (''doc'', Str ''steam flowrate'')]),
      Assign [''m.fs.reformer_duty'']
        (Call (Name ''Var'') []
           [(''initialize'', Num 10000), (''doc'', Str ''reformer heat duty'')]),
      Assign [''m.fs.AR'']
        (Call (Name ''Var'') [] [(''initialize'', Num 0), (''doc'', Str ''AR fraction'')]),
      Assign [''m.fs.C2H6'']
        (Call (Name ''Var'') [] [(''initialize'', Num 0), (''doc'', Str ''C2H6 fraction'')]),
      Assign [''m.fs.C3H8'']
        (Call (Name ''Var'') [] [(''initialize'', Num 0), (''doc'', Str ''C3H8 fraction'')]),
      Assign [''m.fs.C4H10'']
        (Call (Name ''Var'') [] [(''initialize'', Num 0), (''doc'', Str ''C4H10 fraction'')]),
      Assign [''m.fs.CH4'']
        (Call (Name ''Var'') [] [(''initialize'', Num 0), (''doc'', Str ''CH4 fraction'')]),
      Assign [''m.fs.CO'']
        (Call (Name ''Var'') [] [(''initialize'', Num 0), (''doc'', Str ''CO fraction'')]),
      Assign [''m.fs.CO2'']
        (Call (Name ''Var'') [] [(''initialize'', Num 0), (''doc'', Str ''CO2 fraction'')]),
      Assign [''m.fs.H2'']
        (Call (Name ''Var'') [] [(''initialize'', Num 0), (''doc'', Str ''H2 fraction'')]),
      Assign [''m.fs.H2O'']
        (Call (Name ''Var'') [] [(''initialize'', Num 0), (''doc'', Str ''H2O fraction'')]),
      Assign [''m.fs.N2'']
        (Call (Name ''Var'') [] [(''initialize'', Num 0), (''doc'', Str ''N2 fraction'')]),
      Assign [''m.fs.O2'']
        (Call (Name ''Var'') [] [(''initialize'', Num 0), (''doc'', Str ''O2 fraction'')]),
      Assign [''inputs''] (ListE [Name ''m.fs.bypass_frac'', Name ''m.fs.ng_steam_ratio'']),
      Assign [''outputs'']
        (ListE
           [Name ''m.fs.steam_flowrate'', Name ''m.fs.reformer_duty'', Name ''m.fs.AR'',
            Name ''m.fs.C2H6'', Name ''m.fs.C4H10'', Name ''m.fs.C3H8'', Name ''m.fs.CH4'',
            Name ''m.fs.CO'', Name ''m.fs.CO2'', Name ''m.fs.H2'', Name ''m.fs.H2O'',
            Name ''m.fs.N2'', Name ''m.fs.O2'']),
      Assign [''surrogate'']
        (Call (Name ''AlamoSurrogate.load_from_file'') [Str ''alamo_surrogate.json''] []),
      Assign [''m.fs.surrogate''] (Call (Name ''SurrogateBlock'') [] []),
      ExprStmt
        (Call (Name ''m.fs.surrogate.build_model'') [Name ''surrogate'']
           [(''input_vars'', Name ''inputs''), (''output_vars'', Name ''outputs'')]),
      ExprStmt (Call (Name ''m.fs.bypass_frac.fix'') [Num (5 / 10)] []),
      ExprStmt (Call (Name ''m.fs.ng_steam_ratio.fix'') [Num 1] []),
      Assign [''solver''] (Call (Name ''SolverFactory'') [Str ''ipopt''] []),
      Assign [''status_obj'', ''solved'', ''iters'', ''time'']
        (Call (Name ''_run_ipopt_with_stats'') [Name ''m'', Name ''solver''] [])]
     [
      Assign [''status_obj''] (Constant ''None'')]]"

(* lines 1315 to 1336 *)
definition alamo_cell_9 :: cell where
  "alamo_cell_9 = [
   IfStmt (Name ''status_obj'')
     [
      ExprStmt (Call (Name ''print'') [Str ''Model status: '', Name ''status_obj''] []),
      ExprStmt (Call (Name ''print'') [Str ''Solution optimal: '', Name ''solved''] []),
      ExprStmt (Call (Name ''print'') [Str ''IPOPT iterations: '', Name ''iters''] []),
      ExprStmt (Call (Name ''print'') [Str ''IPOPT runtime: '', Name ''time''] []),
      ExprStmt (Call (Name ''print'') [] []),
      ExprStmt
        (Call (Name ''print'')
           [Str ''Steam flowrate = '', Call (Name ''value'') [Name ''m.fs.steam_flowrate''] []] []),
      ExprStmt
        (Call (Name ''print'')
           [Str ''Reformer duty = '', Call (Name ''value'') [Name ''m.fs.reformer_duty''] []] []),
      ExprStmt
        (Call (Name ''print'')
           [Str ''Mole Fraction Ar = '', Call (Name ''value'') [Name ''m.fs.AR''] []] []),
      ExprStmt
        (Call (Name ''print'')
           [Str ''Mole Fraction C2H6 = '', Call (Name ''value'') [Name ''m.fs.C2H6''] []] []),
      ExprStmt
        (Call (Name ''print'')
           [Str ''Mole Fraction C3H8 = '', Call (Name ''value'') [Name ''m.fs.C3H8''] []] []),
      ExprStmt
        (Call (Name ''print'')
           [Str ''Mole Fraction C4H10 = '', Call (Name ''value'') [Name ''m.fs.C4H10''] []] []),
      ExprStmt
        (Call (Name ''print'')
           [Str ''Mole Fraction CH4 = '', Call (Name ''value'') [Name ''m.fs.CH4''] []] []),
      ExprStmt
        (Call (Name ''print'')
           [Str ''Mole Fraction CO = '', Call (Name ''value'') [Name ''m.fs.CO''] []] []),
      ExprStmt
        (Call (Name ''print'')
           [Str ''Mole Fraction CO2 = '', Call (Name ''value'') [Name ''m.fs.CO2''] []] []),
      ExprStmt
        (Call (Name ''print'')
           [Str ''Mole Fraction H2 = '', Call (Name ''value'') [Name ''m.fs.H2''] []] []),
      ExprStmt
        (Call (Name ''print'')
           [Str ''Mole Fraction H2O = '', Call (Name ''value'') [Name ''m.fs.H2O''] []] []),
      ExprStmt
        (Call (Name ''print'')
           [Str ''Mole Fraction N2 = '', Call (Name ''value'') [Name ''m.fs.N2''] []] []),
      ExprStmt
        (Call (Name ''print'')
           [Str ''Mole Fraction O2 = '', Call (Name ''value'') [Name ''m.fs.O2''] []] [])]
     []]"

(* lines 1355 to 1377 *)
definition alamo_cell_10 :: cell where
  "alamo_cell_10 = [
   IfStmt (Name ''has_alamo'')
     [
      ExprStmt (Call (Name ''m.fs.bypass_frac.unfix'') [] []),
      ExprStmt (Call (Name ''m.fs.ng_steam_ratio.unfix'') [] []),
      Assign [''m.fs.obj'']
        (Call (Name ''Objective'') []
           [(''expr'', Name ''m.fs.H2''), (''sense'', Name ''maximize'')]),
      Assign [''m.fs.con'']
        (Call (Name ''Constraint'') []
           [(''expr'', Compare (Name ''m.fs.N2'') CmpLtE (Num (34 / 100)))]),
      Assign [''tmr''] (Call (Name ''TicTocTimer'') [] []),
      Assign [''status''] (Call (Name ''solver.solve'') [Name ''m''] [(''tee'', Constant ''True'')]),
      Assign [''solve_time''] (Call (Name ''tmr.toc'') [Str ''solve''] []),
      Assert
        (Compare
           (Call (Name ''abs'')
              [BinOp (Call (Name ''value'') [Name ''m.fs.H2''] []) OpSub (Num (33 / 100))] [])
           CmpLtE (Num (1 / 100))),
      Assert
        (Call (Name ''value'')
           [Compare (Name ''m.fs.N2'') CmpLtE (BinOp (Num (4 / 10)) OpAdd (Num (1 / 100000000)))] []),
      ExprStmt (Call (Name ''print'') [Str ''Model status: '', Name ''status''] []),
      ExprStmt (Call (Name ''print'') [Str ''Solve time: '', Name ''solve_time''] []),
      For ''var'' (Name ''inputs'')
        [
         ExprStmt
           (Call (Name ''print'')
              [Name ''var.name'', Str '': '', Call (Name ''value'') [Name ''var''] []] [])],
      For ''var'' (Name ''outputs'')
        [
         ExprStmt
           (Call (Name ''print'')
              [Name ''var.name'', Str '': '', Call (Name ''value'') [Name ''var''] []] [])]]
     []]"

definition alamo_nb :: notebook where
  "alamo_nb =
    [[], alamo_cell_2, alamo_cell_3, alamo_cell_4, alamo_cell_5, alamo_cell_6, alamo_cell_7,
     alamo_cell_8, alamo_cell_9, alamo_cell_10, []]"

definition notebooks :: "notebook list" where
  "notebooks = [pump_nb, txy_nb, petsc_chem_nb, petsc_pid_nb, pysmo_nb, alamo_nb]"

section \<open>Reading a notebook\<close>

text \<open>
  The statements of a cell in the order in which they are written, with the statements
  nested in a function body, a loop, a conditional or an exception handler listed after the
  statement that holds them.
\<close>

fun flatten :: "stmt \<Rightarrow> stmt list" where
  "flatten (FunctionDef n ds ps body) = FunctionDef n ds ps body # concat (map flatten body)"
| "flatten (For v e body) = For v e body # concat (map flatten body)"
| "flatten (IfStmt e body orelse) =
     IfStmt e body orelse # concat (map flatten body) @ concat (map flatten orelse)"
| "flatten (TryExcept body exc v handler) =
     TryExcept body exc v handler # concat (map flatten body) @ concat (map flatten handler)"
| "flatten s = [s]"

definition cell_stmts :: "cell \<Rightarrow> stmt list" where
  "cell_stmts c = concat (map flatten c)"

text \<open>
  Every analysis below reads a notebook cell by cell: \<open>per_stmt f nb\<close> collects what \<open>f\<close>
  finds in each statement, in the order of the notebook.
\<close>

definition per_cell :: "(stmt \<Rightarrow> 'a list) \<Rightarrow> cell \<Rightarrow> 'a list" where
  "per_cell f c = concat (map f (cell_stmts c))"

definition per_stmt :: "(stmt \<Rightarrow> 'a list) \<Rightarrow> notebook \<Rightarrow> 'a list" where
  "per_stmt f nb = concat (map (per_cell f) nb)"

text \<open>The expressions a statement holds itself (not those of the statements nested in it).\<close>

fun stmt_exprs :: "stmt \<Rightarrow> expr list" where
  "stmt_exprs (ExprStmt e) = [e]"
| "stmt_exprs (Assign ts e) = [e]"
| "stmt_exprs (Assert e) = [e]"
| "stmt_exprs (FunctionDef n ds ps body) = ds"
| "stmt_exprs (Return e) = [e]"
| "stmt_exprs (For v e body) = [e]"
| "stmt_exprs (IfStmt e body orelse) = [e]"
| "stmt_exprs s = []"

text \<open>
  The calls in an expression whose callee is a name or a path, outermost first: the callee,
  the positional arguments and the keyword arguments.
\<close>

type_synonym call = "string \<times> expr list \<times> (string \<times> expr) list"

fun expr_calls :: "expr \<Rightarrow> call list" where
  "expr_calls (Attribute e a) = expr_calls e"
| "expr_calls (Subscript e i) = expr_calls e @ expr_calls i"
| "expr_calls (Call f args kws) =
     (case f of Name n \<Rightarrow> [(n, args, kws)] | _ \<Rightarrow> []) @ expr_calls f @
     concat (map expr_calls args) @ concat (map (\<lambda>kw. expr_calls (snd kw)) kws)"
| "expr_calls (BinOp a op b) = expr_calls a @ expr_calls b"
| "expr_calls (Compare a op b) = expr_calls a @ expr_calls b"
| "expr_calls (ListE es) = concat (map expr_calls es)"
| "expr_calls (TupleE es) = concat (map expr_calls es)"
| "expr_calls (DictE kvs) = concat (map (\<lambda>kv. expr_calls (fst kv) @ expr_calls (snd kv)) kvs)"
| "expr_calls (ListComp e v it) = expr_calls e @ expr_calls it"
| "expr_calls (DictComp k e v it) = expr_calls k @ expr_calls e @ expr_calls it"
| "expr_calls (JoinedStr es) = concat (map expr_calls es)"
| "expr_calls e = []"

definition calls_of :: "stmt \<Rightarrow> call list" where
  "calls_of s = concat (map expr_calls (stmt_exprs s))"

definition callees :: "stmt \<Rightarrow> string list" where
  "callees s = map fst (calls_of s)"

text \<open>The names an expression mentions.\<close>

fun names :: "expr \<Rightarrow> string list" where
  "names (Name n) = [n]"
| "names (Attribute e a) = names e"
| "names (Subscript e i) = names e @ names i"
| "names (Call f args kws) =
     names f @ concat (map names args) @ concat (map (\<lambda>kw. names (snd kw)) kws)"
| "names (BinOp a op b) = names a @ names b"
| "names (Compare a op b) = names a @ names b"
| "names (ListE es) = concat (map names es)"
| "names (TupleE es) = concat (map names es)"
| "names (DictE kvs) = concat (map (\<lambda>kv. names (fst kv) @ names (snd kv)) kvs)"
| "names (ListComp e v it) = names e @ names it"
| "names (DictComp k e v it) = names k @ names e @ names it"
| "names (JoinedStr es) = concat (map names es)"
| "names e = []"

text \<open>Python's \<^verbatim>\<open>str.endswith\<close> and \<^verbatim>\<open>str.startswith\<close>.\<close>

definition endswith :: "string \<Rightarrow> string \<Rightarrow> bool" where
  "endswith s suf = (length suf \<le> length s \<and> drop (length s - length suf) s = suf)"

definition startswith :: "string \<Rightarrow> string \<Rightarrow> bool" where
  "startswith s pre = (take (length pre) s = pre)"

section \<open>Calls of the PETSc time-stepping solver\<close>

text \<open>
  The invocations of \<^verbatim>\<open>petsc_dae_by_time_element\<close> in a notebook, whatever path the callee is
  reached by (the notebooks import the module as \<^verbatim>\<open>petsc\<close>).
\<close>

definition petsc_calls :: "notebook \<Rightarrow> call list" where
  "petsc_calls nb =
     per_stmt (\<lambda>s. filter (\<lambda>c. endswith (fst c) ''petsc_dae_by_time_element'') (calls_of s)) nb"

text \<open>
  A dictionary display is looked up by a string key; where a key is written twice, Python
  keeps the last value.
\<close>

fun dict_get :: "(expr \<times> expr) list \<Rightarrow> string \<Rightarrow> expr option" where
  "dict_get [] k = None"
| "dict_get ((k', v) # kvs) k =
     (case dict_get kvs k of
        Some w \<Rightarrow> Some w
      | None \<Rightarrow> (if k' = Str k then Some v else None))"

text \<open>
  The \<^verbatim>\<open>ts_options\<close> keyword argument of a call, when it is a dictionary display, and what the
  claim asks of it: the keys \<^verbatim>\<open>--ts_type\<close> and \<^verbatim>\<open>--ts_dt\<close> are present and
  \<^verbatim>\<open>--ts_save_trajectory\<close> is 1.
\<close>

definition ts_options :: "call \<Rightarrow> (expr \<times> expr) list option" where
  "ts_options c =
     (case map_of (snd (snd c)) ''ts_options'' of
        Some (DictE kvs) \<Rightarrow> Some kvs
      | _ \<Rightarrow> None)"

definition ts_options_ok :: "call \<Rightarrow> bool" where
  "ts_options_ok c =
     (case ts_options c of
        None \<Rightarrow> False
      | Some kvs \<Rightarrow>
          dict_get kvs ''--ts_type'' \<noteq> None \<and> dict_get kvs ''--ts_dt'' \<noteq> None \<and>
          dict_get kvs ''--ts_save_trajectory'' = Some (Num 1))"

section \<open>The value of an expression\<close>

text \<open>
  The arithmetic the notebooks write themselves is evaluated over the reals. Names are read
  from an environment (the value the solver left in a model variable). The library
  functions used inside arithmetic are \<^verbatim>\<open>abs\<close>, Pyomo's \<^verbatim>\<open>value\<close> (the value of a variable or
  of an expression) and \<^verbatim>\<open>smooth_min\<close> and \<^verbatim>\<open>smooth_max\<close> of \<^verbatim>\<open>idaes.core.util.math\<close>; the last
  two are parameters of the evaluation, since their code is not part of the repository.
  An expression outside this fragment has no value (\<open>None\<close>), and neither has a division by
  zero, which raises in Python. Powers are not evaluated: the notebooks raise units to powers,
  never numbers.
\<close>

record library =
  smooth_min :: "real \<Rightarrow> real \<Rightarrow> real"
  smooth_max :: "real \<Rightarrow> real \<Rightarrow> real"

definition exact :: library where
  "exact = \<lparr>smooth_min = min, smooth_max = max\<rparr>"

type_synonym env = "string \<Rightarrow> real option"

fun arith :: "binop \<Rightarrow> real \<Rightarrow> real \<Rightarrow> real option" where
  "arith OpAdd x y = Some (x + y)"
| "arith OpSub x y = Some (x - y)"
| "arith OpMult x y = Some (x * y)"
| "arith OpDiv x y = (if y = 0 then None else Some (x / y))"
| "arith OpPow x y = None"

fun eval :: "library \<Rightarrow> env \<Rightarrow> expr \<Rightarrow> real option" where
  "eval lib env (Num x) = Some x"
| "eval lib env (Name n) = env n"
| "eval lib env (BinOp a op b) =
     (case (eval lib env a, eval lib env b) of
        (Some x, Some y) \<Rightarrow> arith op x y
      | _ \<Rightarrow> None)"
| "eval lib env (Call f args kws) =
     (case (f, args, kws) of
        (Name n, [a], []) \<Rightarrow>
          (if n = ''abs'' then map_option abs (eval lib env a)
           else if n = ''value'' \<or> n = ''pyo.value'' then eval lib env a
           else None)
      | (Name n, [a, b], []) \<Rightarrow>
          (case (eval lib env a, eval lib env b) of
             (Some x, Some y) \<Rightarrow>
               (if n = ''smooth_min'' then Some (smooth_min lib x y)
                else if n = ''smooth_max'' then Some (smooth_max lib x y)
                else None)
           | _ \<Rightarrow> None)
      | _ \<Rightarrow> None)"
| "eval lib env e = None"




text \<open>The assertions of a notebook, and those that mention a given name.\<close>

fun asserted :: "stmt \<Rightarrow> expr list" where
  "asserted (Assert e) = [e]"
| "asserted s = []"

definition assertions :: "notebook \<Rightarrow> expr list" where
  "assertions nb = per_stmt asserted nb"


text \<open>The environment in which one variable has a value.\<close>

definition solved :: "string \<Rightarrow> real \<Rightarrow> env" where
  "solved v x = (\<lambda>n. if n = v then Some x else None)"

section \<open>The inlet-pressure ramp of the PID example\<close>

text \<open>
  The rules of the constraints a notebook declares under a given name: the two sides of the
  equation the rule returns.
\<close>

fun rule_of :: "string \<Rightarrow> stmt \<Rightarrow> (expr \<times> expr) list" where
  "rule_of name (FunctionDef n ds ps body) =
     (case body of
        [Return (Compare lhs CmpEq rhs)] \<Rightarrow> (if n = name then [(lhs, rhs)] else [])
      | _ \<Rightarrow> [])"
| "rule_of name s = []"

definition constraint_rules :: "string \<Rightarrow> notebook \<Rightarrow> (expr \<times> expr) list" where
  "constraint_rules name nb = per_stmt (rule_of name) nb"

text \<open>
  The first ramp model (cell 8 of the PID notebook, one time element over \<open>[0, 24]\<close>):
  \<^verbatim>\<open>
  def inlet_pressure_eqn(b, t):
      return b.valve_1.control_volume.properties_in[t].pressure == smooth_min(
          600000, smooth_max(500000, 50000 * (b.time_var[t] - 10) + 500000))
  \<close>
  The second (cell 13, three time elements) constrains the pressure to
  \<^verbatim>\<open>50000 * (b.time_var[t] - 10) + 500000\<close>.
\<close>

definition smooth_ramp :: "library \<Rightarrow> real \<Rightarrow> real" where
  "smooth_ramp lib time_var =
     smooth_min lib 600000 (smooth_max lib 500000 (50000 * (time_var - 10) + 500000))"

definition linear_ramp :: "library \<Rightarrow> real \<Rightarrow> real" where
  "linear_ramp lib time_var = 50000 * (time_var - 10) + 500000"

section \<open>The inlet pressure over time in the two ramp models\<close>

text \<open>
  What the two ramp cells of the PID notebook say about the inlet pressure
  \<^verbatim>\<open>m.fs.valve_1.control_volume.properties_in[t].pressure\<close>: at each point \<open>t\<close> of the time set
  the variable is fixed to a value or free, and the constraint \<^verbatim>\<open>inlet_pressure_eqn[t]\<close> is
  active or not. The cells change this state through Pyomo's \<^verbatim>\<open>fix\<close>, \<^verbatim>\<open>unfix\<close>, \<^verbatim>\<open>set_value\<close>,
  \<^verbatim>\<open>Constraint\<close>, \<^verbatim>\<open>deactivate\<close> and \<^verbatim>\<open>activate\<close>. The model they start from comes from
  \<^verbatim>\<open>pid.create_model\<close>, whose code is not in the source files: it is a parameter, and only its
  time set is taken from the call (\<^verbatim>\<open>time_set=[0, 24]\<close>, or \<^verbatim>\<open>time_set=[0, 10, 12, 24]\<close>).
\<close>

record inlet =
  time :: "real list"
  fixed :: "real \<Rightarrow> bool"
  val :: "real \<Rightarrow> real"
  rule :: "(library \<Rightarrow> real \<Rightarrow> real) option"
  active :: "real \<Rightarrow> bool"













section \<open>Degrees of freedom of the pump flowsheet\<close>

text \<open>
  \<^verbatim>\<open>degrees_of_freedom\<close> is a function of the framework; the notebook describes it: "DOF = Number
  of Model Variables - Number of Model Constraints", where a fixed variable no longer counts
  as a variable. A model is its variables, the variables that are fixed, and its
  constraints, each named by its path; a block such as \<^verbatim>\<open>m.fs.pump_case_2\<close> holds the components
  whose path lies under it. Which variables and constraints a \<^verbatim>\<open>Pump\<close> brings is decided by the
  framework, not by the notebook: the model after the pump is attached is a parameter.
\<close>

record flowsheet =
  variables :: "string list"
  constraints :: "string list"
  fixed_vars :: "string list"

definition inside :: "string \<Rightarrow> string \<Rightarrow> bool" where
  "inside blk v = (v = blk \<or> startswith v (blk @ ''.''))"

definition free_vars :: "string \<Rightarrow> flowsheet \<Rightarrow> string list" where
  "free_vars blk m =
     filter (\<lambda>v. inside blk v \<and> v \<notin> set (fixed_vars m)) (remdups (variables m))"

definition degrees_of_freedom :: "string \<Rightarrow> flowsheet \<Rightarrow> int" where
  "degrees_of_freedom blk m =
     int (length (free_vars blk m)) -
     int (length (filter (inside blk) (remdups (constraints m))))"

definition fix_var :: "string \<Rightarrow> flowsheet \<Rightarrow> flowsheet" where
  "fix_var v m = m\<lparr>fixed_vars := v # fixed_vars m\<rparr>"

datatype error = AssertionError


definition pump_case_1 :: "flowsheet \<Rightarrow> error + flowsheet" where
  "pump_case_1 m =
     (let DOF_initial = degrees_of_freedom ''m'' m in
      if DOF_initial \<noteq> 5 then Inl AssertionError
      else
        let m = fix_var ''m.fs.pump_case_1.inlet.flow_mol[0]'' m;
            m = fix_var ''m.fs.pump_case_1.inlet.enth_mol[0]'' m;
            m = fix_var ''m.fs.pump_case_1.inlet.pressure[0]'' m;
            m = fix_var ''m.fs.pump_case_1.deltaP'' m;
            m = fix_var ''m.fs.pump_case_1.efficiency_pump'' m;
            DOF_final = degrees_of_freedom ''m'' m
        in if DOF_final \<noteq> 0 then Inl AssertionError else Inr m)"


definition pump_case_2 :: "flowsheet \<Rightarrow> error + flowsheet" where
  "pump_case_2 m =
     (let DOF_initial = degrees_of_freedom ''m.fs.pump_case_2'' m in
      if DOF_initial \<noteq> 5 then Inl AssertionError
      else
        let m = fix_var ''m.fs.pump_case_2.inlet.flow_mol[0]'' m;
            m = fix_var ''m.fs.pump_case_2.inlet.enth_mol[0]'' m;
            m = fix_var ''m.fs.pump_case_2.inlet.pressure[0]'' m;
            m = fix_var ''m.fs.pump_case_2.outlet.pressure[0]'' m;
            m = fix_var ''m.fs.pump_case_2.efficiency_pump'' m;
            DOF_final = degrees_of_freedom ''m.fs.pump_case_2'' m
        in if DOF_final \<noteq> 0 then Inl AssertionError else Inr m)"



section \<open>Error handling in the notebooks\<close>





section \<open>Solver invocations and what the assertions check\<close>

text \<open>
  A notebook invokes a solver by \<^verbatim>\<open>solve\<close> on a solver object, by
  \<^verbatim>\<open>petsc_dae_by_time_element\<close> or by \<^verbatim>\<open>_run_ipopt_with_stats\<close>.
\<close>

definition is_solver_call :: "string \<Rightarrow> bool" where
  "is_solver_call f =
     (endswith f ''.solve'' \<or> endswith f ''petsc_dae_by_time_element'' \<or>
      endswith f ''_run_ipopt_with_stats'')"

datatype event = Solved string | Checked expr

fun events_of :: "stmt \<Rightarrow> event list" where
  "events_of (Assert e) = [Checked e]"
| "events_of s = map Solved (filter is_solver_call (callees s))"

definition events :: "notebook \<Rightarrow> event list" where
  "events nb = per_stmt events_of nb"

text \<open>The assertions that run before the first solver invocation.\<close>

fun before_any_solve :: "event list \<Rightarrow> expr list" where
  "before_any_solve [] = []"
| "before_any_solve (Solved f # es) = []"
| "before_any_solve (Checked e # es) = e # before_any_solve es"

text \<open>
  An assertion reads solver output when it mentions the solver's status object or the value
  of a model variable (\<^verbatim>\<open>.value\<close>, \<^verbatim>\<open>value(...)\<close>, \<^verbatim>\<open>pyo.value(...)\<close>). An assertion counts degrees of
  freedom when it compares \<^verbatim>\<open>DOF_initial\<close> or \<^verbatim>\<open>DOF_final\<close> with a number.
\<close>

definition reads_solver_output :: "expr \<Rightarrow> bool" where
  "reads_solver_output e =
     (list_ex (\<lambda>n. startswith n ''solve_status.'' \<or> endswith n ''.value'') (names e) \<or>
      list_ex (\<lambda>c. fst c = ''value'' \<or> fst c = ''pyo.value'') (expr_calls e))"

definition counts_degrees_of_freedom :: "expr \<Rightarrow> bool" where
  "counts_degrees_of_freedom e =
     (case e of
        Compare (Name v) CmpEq (Num n) \<Rightarrow> v = ''DOF_initial'' \<or> v = ''DOF_final''
      | _ \<Rightarrow> False)"

definition validates_solver_output :: "notebook \<Rightarrow> bool" where
  "validates_solver_output nb =
     (before_any_solve (events nb) = [] \<and> list_all reads_solver_output (assertions nb))"

text \<open>The calls whose result a notebook assigns to a given name.\<close>

fun binding_of :: "string \<Rightarrow> stmt \<Rightarrow> string list" where
  "binding_of v (Assign ts e) =
     (if v \<in> set ts then (case e of Call (Name f) args kws \<Rightarrow> [f] | _ \<Rightarrow> ['''']) else [])"
| "binding_of v s = []"

definition bound_by :: "string \<Rightarrow> notebook \<Rightarrow> string list" where
  "bound_by v nb = per_stmt (binding_of v) nb"

section \<open>The five operations\<close>

text \<open>
  The operations of the specification's flow, read off the calls of a notebook: building a
  model container (\<^verbatim>\<open>ConcreteModel\<close>, \<^verbatim>\<open>FlowsheetBlock\<close>, or a helper that returns a built model),
  attaching a model of the framework (a unit model, a property package, a surrogate block),
  fixing a variable, invoking a solver, and extracting results (printing, plotting, a report,
  an assertion). \<^verbatim>\<open>Txy_diagram\<close> solves and plots inside the framework and counts as both.
\<close>

datatype step = Build | Attach | Fix | Solve | Extract








section \<open>Functions the notebooks define\<close>







section \<open>Where the surrogate of a flowsheet comes from\<close>






text \<open>
  A symbolic run that follows the surrogate objects of a notebook. The value of a name is
  the call that returned it, with the values of the call's positional arguments, when the
  call is \<^verbatim>\<open>train_surrogate\<close> or one of its arguments is itself followed; a component of an
  unpacked tuple; the result of \<^verbatim>\<open>load_from_file\<close> on a file, with what the run had saved in
  that file (\<open>Opaque\<close> if the run had not written it); or \<open>Opaque\<close>, which stands for every other
  value and is not stored. \<^verbatim>\<open>save_to_file\<close> records the value of its receiver under the file
  name, and \<^verbatim>\<open>build_model\<close> records the value of its first argument, the surrogate it attaches
  to the flowsheet's \<^verbatim>\<open>SurrogateBlock\<close>. Statements are run in the order in which they are
  written, those of the branches of a conditional and of an exception handler included.
\<close>

datatype sym = Result string "sym list" | Item nat sym | Loaded string sym | Opaque




definition result :: "string \<Rightarrow> sym list \<Rightarrow> sym" where
  "result f xs =
     (if endswith f ''.train_surrogate'' \<or> list_ex (\<lambda>x. x \<noteq> Opaque) xs then Result f xs
      else Opaque)"








section \<open>Evaluating the analyses\<close>

text \<open>
  An analysis is evaluated on a notebook cell by cell: the notebook is unfolded to the list
  of its cells, the analysis is distributed over the list, and each cell is then unfolded
  and evaluated by itself.
\<close>

lemmas pump_cells =
  pump_cell_2_def pump_cell_3_def pump_cell_4_def pump_cell_5_def pump_cell_6_def pump_cell_7_def
  pump_cell_8_def pump_cell_9_def pump_cell_10_def pump_cell_12_def pump_cell_13_def
  pump_cell_14_def pump_cell_15_def pump_cell_16_def pump_cell_17_def pump_cell_18_def
  pump_cell_19_def pump_cell_20_def pump_cell_21_def pump_cell_22_def pump_cell_23_def
  pump_cell_24_def pump_cell_25_def

lemmas txy_cells =
  txy_cell_2_def txy_cell_3_def txy_cell_4_def txy_cell_5_def txy_cell_6_def txy_cell_7_def

lemmas petsc_chem_cells =
  petsc_chem_cell_2_def petsc_chem_cell_4_def petsc_chem_cell_5_def petsc_chem_cell_7_def
  petsc_chem_cell_8_def petsc_chem_cell_9_def petsc_chem_cell_10_def petsc_chem_cell_11_def
  petsc_chem_cell_12_def petsc_chem_cell_13_def petsc_chem_cell_14_def petsc_chem_cell_15_def

lemmas petsc_pid_cells =
  petsc_pid_cell_2_def petsc_pid_cell_4_def petsc_pid_cell_5_def petsc_pid_cell_6_def
  petsc_pid_cell_7_def petsc_pid_cell_8_def petsc_pid_cell_9_def petsc_pid_cell_10_def
  petsc_pid_cell_11_def petsc_pid_cell_12_def petsc_pid_cell_13_def petsc_pid_cell_14_def
  petsc_pid_cell_15_def petsc_pid_cell_16_def petsc_pid_cell_17_def

lemmas pysmo_cells =
  pysmo_cell_2_def pysmo_cell_3_def pysmo_cell_4_def pysmo_cell_5_def pysmo_cell_6_def
  pysmo_cell_7_def pysmo_cell_8_def pysmo_cell_9_def pysmo_cell_10_def

lemmas alamo_cells =
  alamo_cell_2_def alamo_cell_3_def alamo_cell_4_def alamo_cell_5_def alamo_cell_6_def
  alamo_cell_7_def alamo_cell_8_def alamo_cell_9_def alamo_cell_10_def

lemmas read_nb = per_stmt_def list.map concat.simps append_Nil append_Nil2 append_Cons

lemmas read_cell = per_cell_def cell_stmts_def calls_of_def callees_def endswith_def startswith_def

subsection \<open>Options passed to the PETSc solver\<close>

lemma petsc_calls_pump: "petsc_calls pump_nb = []"
  unfolding petsc_calls_def pump_nb_def read_nb
  by (simp add: read_cell pump_cells)

lemma petsc_calls_txy: "petsc_calls txy_nb = []"
  unfolding petsc_calls_def txy_nb_def read_nb
  by (simp add: read_cell txy_cells)

lemma petsc_calls_pysmo: "petsc_calls pysmo_nb = []"
  unfolding petsc_calls_def pysmo_nb_def read_nb
  by (simp add: read_cell pysmo_cells)

lemma petsc_calls_alamo: "petsc_calls alamo_nb = []"
  unfolding petsc_calls_def alamo_nb_def read_nb
  by (simp add: read_cell alamo_cells)

lemma petsc_calls_chem:
  "petsc_calls petsc_chem_nb =
     [(''petsc.petsc_dae_by_time_element'', [Name ''m''],
       [(''time'', Name ''m.t''),
        (''between'', ListE [Call (Name ''m.t.first'') [] [], Call (Name ''m.t.last'') [] []]),
        (''ts_options'',
         DictE [(Str ''--ts_type'', Str ''cn''), (Str ''--ts_adapt_type'', Str ''basic''),
                (Str ''--ts_dt'', Num (1 / 100)), (Str ''--ts_save_trajectory'', Num 1)])])]"
  unfolding petsc_calls_def petsc_chem_nb_def read_nb
  by (simp add: read_cell petsc_chem_cells)

lemma petsc_calls_pid:
  "petsc_calls petsc_pid_nb =
     [(''petsc.petsc_dae_by_time_element'', [Name ''m''],
       [(''time'', Name ''m.fs.time''),
        (''ts_options'',
         DictE [(Str ''--ts_type'', Str ''beuler''), (Str ''--ts_dt'', Num (1 / 10)),
                (Str ''--ts_monitor'', Str ''''), (Str ''--ts_save_trajectory'', Num 1)])]),
      (''petsc.petsc_dae_by_time_element'', [Name ''m''],
       [(''time'', Name ''m.fs.time''), (''timevar'', Name ''m.fs.time_var''),
        (''ts_options'',
         DictE [(Str ''--ts_type'', Str ''beuler''), (Str ''--ts_dt'', Num (1 / 10)),
                (Str ''--ts_monitor'', Str ''''), (Str ''--ts_save_trajectory'', Num 1)])]),
      (''petsc.petsc_dae_by_time_element'', [Name ''m''],
       [(''time'', Name ''m.fs.time''), (''timevar'', Name ''m.fs.time_var''),
        (''ts_options'',
         DictE [(Str ''--ts_type'', Str ''beuler''), (Str ''--ts_dt'', Num (1 / 10)),
                (Str ''--ts_monitor'', Str ''''), (Str ''--ts_save_trajectory'', Num 1)])])]"
  unfolding petsc_calls_def petsc_pid_nb_def read_nb
  by (simp add: read_cell petsc_pid_cells)

lemmas petsc_calls_eval =
  petsc_calls_pump petsc_calls_txy petsc_calls_chem petsc_calls_pid petsc_calls_pysmo
  petsc_calls_alamo

text \<open>
  C5. Every invocation of \<^verbatim>\<open>petsc.petsc_dae_by_time_element\<close> in the six notebooks (there are
  four: one in the chemical example, three in the PID example) passes a \<^verbatim>\<open>ts_options\<close>
  dictionary that has the keys \<^verbatim>\<open>--ts_type\<close> and \<^verbatim>\<open>--ts_dt\<close> and sets
  \<^verbatim>\<open>--ts_save_trajectory\<close> to 1.
\<close>

theorem petsc_ts_options:
  "(\<forall>nb \<in> set notebooks. \<forall>c \<in> set (petsc_calls nb). ts_options_ok c) \<and>
   map (\<lambda>nb. length (petsc_calls nb)) notebooks = [0, 0, 1, 3, 0, 0]"
  by (simp add: notebooks_def petsc_calls_eval ts_options_ok_def ts_options_def)

theorem petsc_ts_options_witness:
  "petsc_chem_nb \<in> set notebooks \<and> hd (petsc_calls petsc_chem_nb) \<in> set (petsc_calls petsc_chem_nb) \<and>
   ts_options_ok (hd (petsc_calls petsc_chem_nb)) \<and>
   ts_options (hd (petsc_calls petsc_chem_nb)) =
     Some [(Str ''--ts_type'', Str ''cn''), (Str ''--ts_adapt_type'', Str ''basic''),
           (Str ''--ts_dt'', Num (1 / 100)), (Str ''--ts_save_trajectory'', Num 1)]"
proof -
  have nb: "petsc_chem_nb \<in> set notebooks"
    by (simp add: notebooks_def)
  have c: "hd (petsc_calls petsc_chem_nb) \<in> set (petsc_calls petsc_chem_nb)"
    by (simp add: petsc_calls_chem)
  from petsc_ts_options nb c have "ts_options_ok (hd (petsc_calls petsc_chem_nb))"
    by blast
  moreover have "ts_options (hd (petsc_calls petsc_chem_nb)) =
     Some [(Str ''--ts_type'', Str ''cn''), (Str ''--ts_adapt_type'', Str ''basic''),
           (Str ''--ts_dt'', Num (1 / 100)), (Str ''--ts_save_trajectory'', Num 1)]"
    by (simp add: petsc_calls_chem ts_options_def)
  ultimately show ?thesis using nb c by simp
qed

subsection \<open>Tolerances of the embedded assertions\<close>

lemma assertions_pump:
  "assertions pump_nb =
     [Compare (Name ''DOF_initial'') CmpEq (Num 5),
      Compare (Name ''DOF_final'') CmpEq (Num 0),
      Compare (Name ''solve_status.solver.termination_condition'') CmpEq
        (Name ''TerminationCondition.optimal''),
      Compare (Name ''solve_status.solver.status'') CmpEq (Name ''SolverStatus.ok''),
      Compare (Name ''m.fs.pump_case_1.outlet.pressure[0].value'') CmpEq
        (Call (Name ''pytest.approx'') [Num 201325] [(''abs'', Num (1 / 100))]),
      Compare (Name ''m.fs.pump_case_1.work_mechanical[0].value'') CmpEq
        (Call (Name ''pytest.approx'') [Num (22585 / 100)] [(''abs'', Num (1 / 100))]),
      Compare (Name ''DOF_initial'') CmpEq (Num 5),
      Compare (Name ''DOF_final'') CmpEq (Num 0),
      Compare (Name ''solve_status.solver.termination_condition'') CmpEq
        (Name ''TerminationCondition.optimal''),
      Compare (Name ''solve_status.solver.status'') CmpEq (Name ''SolverStatus.ok''),
      Compare (Name ''m.fs.pump_case_2.deltaP[0].value'') CmpEq
        (Call (Name ''pytest.approx'') [Num 100000] [(''abs'', Num (1 / 100))]),
      Compare (Name ''m.fs.pump_case_2.work_mechanical[0].value'') CmpEq
        (Call (Name ''pytest.approx'') [Num (22585 / 100)] [(''abs'', Num (1 / 100))])]"
  unfolding assertions_def pump_nb_def read_nb
  by (simp add: read_cell pump_cells)

lemma assertions_txy: "assertions txy_nb = []"
  unfolding assertions_def txy_nb_def read_nb
  by (simp add: read_cell txy_cells)

lemma assertions_chem:
  "assertions petsc_chem_nb =
     map (\<lambda>(y, v). Compare
            (BinOp (Call (Name ''abs'') [BinOp (Name y) OpSub (Call (Name ''pyo.value'') [Name v] [])] [])
               OpDiv (Name y))
            CmpLt (Num (1 / 1000)))
       [(''y1'', ''m.y[180, 1]''), (''y2'', ''m.y[180, 2]''), (''y3'', ''m.y[180, 3]''),
        (''y4'', ''m.y[180, 4]''), (''y5'', ''m.y[180, 5]''), (''y6'', ''m.y6[180]'')]"
  unfolding assertions_def petsc_chem_nb_def read_nb
  by (simp add: read_cell petsc_chem_cells)

lemma assertions_pid: "assertions petsc_pid_nb = []"
  unfolding assertions_def petsc_pid_nb_def read_nb
  by (simp add: read_cell petsc_pid_cells)

lemma assertions_pysmo:
  "assertions pysmo_nb =
     [Compare (Call (Name ''abs'') [BinOp (Call (Name ''value'') [Name ''m.fs.H2''] []) OpSub (Num (33 / 100))] [])
        CmpLtE (Num (1 / 100)),
      Call (Name ''value'')
        [Compare (Name ''m.fs.N2'') CmpLtE (BinOp (Num (4 / 10)) OpAdd (Num (1 / 100000000)))] []]"
  unfolding assertions_def pysmo_nb_def read_nb
  by (simp add: read_cell pysmo_cells)

lemma assertions_alamo:
  "assertions alamo_nb =
     [Compare (Call (Name ''abs'') [BinOp (Call (Name ''value'') [Name ''m.fs.H2''] []) OpSub (Num (33 / 100))] [])
        CmpLtE (Num (1 / 100)),
      Call (Name ''value'')
        [Compare (Name ''m.fs.N2'') CmpLtE (BinOp (Num (4 / 10)) OpAdd (Num (1 / 100000000)))] []]"
  unfolding assertions_def alamo_nb_def read_nb
  by (simp add: read_cell alamo_cells)


subsection \<open>The ramp constraint\<close>

lemma constraint_rules_pid:
  "constraint_rules ''inlet_pressure_eqn'' petsc_pid_nb =
     [(Name ''b.valve_1.control_volume.properties_in[t].pressure'',
       Call (Name ''smooth_min'')
         [Num 600000,
          Call (Name ''smooth_max'')
            [Num 500000,
             BinOp (BinOp (Num 50000) OpMult (BinOp (Name ''b.time_var[t]'') OpSub (Num 10)))
               OpAdd (Num 500000)] []] []),
      (Name ''b.valve_1.control_volume.properties_in[t].pressure'',
       BinOp (BinOp (Num 50000) OpMult (BinOp (Name ''b.time_var[t]'') OpSub (Num 10)))
         OpAdd (Num 500000))]"
  unfolding constraint_rules_def petsc_pid_nb_def read_nb
  by (simp add: read_cell petsc_pid_cells)

text \<open>The two definitions of the ramp are the right-hand sides the notebook writes.\<close>

lemma ramps_are_the_rules:
  "map (\<lambda>r. eval lib (solved ''b.time_var[t]'' t) (snd r))
     (constraint_rules ''inlet_pressure_eqn'' petsc_pid_nb) =
   [Some (smooth_ramp lib t), Some (linear_ramp lib t)]"
  by (simp add: constraint_rules_pid solved_def smooth_ramp_def linear_ramp_def)

lemma smooth_ramp_exact:
  "smooth_ramp exact t =
     (if t \<le> 10 then 500000 else if t \<le> 12 then 50000 * (t - 10) + 500000 else 600000)"
  by (simp add: smooth_ramp_def exact_def min_def max_def)

text \<open>
  C8. With exact \<open>min\<close> and \<open>max\<close> for \<^verbatim>\<open>smooth_min\<close> and \<^verbatim>\<open>smooth_max\<close>, the right-hand side of the
  first \<^verbatim>\<open>inlet_pressure_eqn\<close> of the PID notebook is, at every time \<open>t\<close>, the clamp of
  \<open>50000 * (t - 10) + 500000\<close> to \<open>[500000, 600000]\<close>: 500000 up to \<open>t = 10\<close>, linear between 10
  and 12, 600000 from \<open>t = 12\<close> on.
\<close>

theorem inlet_pressure_rhs_clamp:
  "eval exact (solved ''b.time_var[t]'' t)
     (snd (hd (constraint_rules ''inlet_pressure_eqn'' petsc_pid_nb))) =
     Some (max 500000 (min 600000 (50000 * (t - 10) + 500000))) \<and>
   max 500000 (min 600000 (50000 * (t - 10) + 500000)) =
     (if t \<le> 10 then 500000 else if t \<le> 12 then 50000 * (t - 10) + 500000 else 600000)"
  by (simp add: constraint_rules_pid solved_def exact_def min_def max_def)

subsection \<open>The two ramp models agree\<close>

text \<open>The calls of the two ramp cells, with their positional arguments, as the models follow them.\<close>

lemma single_element_cell:
  "map (\<lambda>c. (fst c, fst (snd c))) (per_cell calls_of petsc_pid_cell_8) =
     [(''pid.create_model'', []),
      (''pyo.Var'', [Name ''m.fs.time'']),
      (''m.fs.valve_1.control_volume.properties_in[0].pressure.unfix'', []),
      (''m.fs.valve_1.control_volume.properties_in[24].pressure.unfix'', []),
      (''m.fs.time_var[0].fix'', [Call (Name ''m.fs.time.first'') [] []]),
      (''m.fs.time.first'', []),
      (''m.fs.Constraint'', [Name ''m.fs.time'']),
      (''smooth_min'',
       [Num 600000,
        Call (Name ''smooth_max'')
          [Num 500000,
           BinOp (BinOp (Num 50000) OpMult (BinOp (Name ''b.time_var[t]'') OpSub (Num 10)))
             OpAdd (Num 500000)] []]),
      (''smooth_max'',
       [Num 500000,
        BinOp (BinOp (Num 50000) OpMult (BinOp (Name ''b.time_var[t]'') OpSub (Num 10)))
          OpAdd (Num 500000)])]"
  by (simp add: read_cell petsc_pid_cell_8_def)

lemma three_element_cell:
  "map (\<lambda>c. (fst c, fst (snd c))) (per_cell calls_of petsc_pid_cell_13) =
     [(''pid.create_model'', []),
      (''pyo.Var'', [Name ''m.fs.time'']),
      (''m.fs.valve_1.control_volume.properties_in[0].pressure.fix'', [Num 500000]),
      (''m.fs.valve_1.control_volume.properties_in[10].pressure.fix'', [Num 500000]),
      (''m.fs.valve_1.control_volume.properties_in[12].pressure.set_value'', [Num 600000]),
      (''m.fs.valve_1.control_volume.properties_in[12].pressure.unfix'', []),
      (''m.fs.valve_1.control_volume.properties_in[24].pressure.fix'', [Num 600000]),
      (''m.fs.Constraint'', [Name ''m.fs.time'']),
      (''m.fs.inlet_pressure_eqn.deactivate'', []),
      (''m.fs.inlet_pressure_eqn[12].activate'', [])]"
  by (simp add: read_cell petsc_pid_cell_13_def)

lemma ramp_cells_time_sets:
  "map (\<lambda>c. map_of (snd (snd c)) ''time_set'')
     (filter (\<lambda>c. fst c = ''pid.create_model'')
        (per_cell calls_of petsc_pid_cell_8 @ per_cell calls_of petsc_pid_cell_13)) =
     [Some (ListE [Num 0, Num 24]), Some (ListE [Num 0, Num 10, Num 12, Num 24])]"
  by (simp add: read_cell petsc_pid_cell_8_def petsc_pid_cell_13_def)









subsection \<open>Degrees of freedom of the two pump cases\<close>













subsection \<open>Error handling\<close>









subsection \<open>What the assertions check\<close>

lemma events_pump:
  "events pump_nb =
     [Checked (Compare (Name ''DOF_initial'') CmpEq (Num 5)),
      Checked (Compare (Name ''DOF_final'') CmpEq (Num 0)),
      Solved ''opt.solve'',
      Checked (Compare (Name ''solve_status.solver.termination_condition'') CmpEq
        (Name ''TerminationCondition.optimal'')),
      Checked (Compare (Name ''solve_status.solver.status'') CmpEq (Name ''SolverStatus.ok'')),
      Checked (Compare (Name ''m.fs.pump_case_1.outlet.pressure[0].value'') CmpEq
        (Call (Name ''pytest.approx'') [Num 201325] [(''abs'', Num (1 / 100))])),
      Checked (Compare (Name ''m.fs.pump_case_1.work_mechanical[0].value'') CmpEq
        (Call (Name ''pytest.approx'') [Num (22585 / 100)] [(''abs'', Num (1 / 100))])),
      Checked (Compare (Name ''DOF_initial'') CmpEq (Num 5)),
      Checked (Compare (Name ''DOF_final'') CmpEq (Num 0)),
      Solved ''opt.solve'',
      Checked (Compare (Name ''solve_status.solver.termination_condition'') CmpEq
        (Name ''TerminationCondition.optimal'')),
      Checked (Compare (Name ''solve_status.solver.status'') CmpEq (Name ''SolverStatus.ok'')),
      Checked (Compare (Name ''m.fs.pump_case_2.deltaP[0].value'') CmpEq
        (Call (Name ''pytest.approx'') [Num 100000] [(''abs'', Num (1 / 100))])),
      Checked (Compare (Name ''m.fs.pump_case_2.work_mechanical[0].value'') CmpEq
        (Call (Name ''pytest.approx'') [Num (22585 / 100)] [(''abs'', Num (1 / 100))]))]"
  unfolding events_def pump_nb_def read_nb
  by (simp add: read_cell pump_cells is_solver_call_def)

lemma solves_txy: "before_any_solve (events txy_nb) = []"
  unfolding events_def txy_nb_def read_nb
  by (simp add: read_cell txy_cells is_solver_call_def)

lemma solves_chem: "before_any_solve (events petsc_chem_nb) = []"
  unfolding events_def petsc_chem_nb_def read_nb
  by (simp add: read_cell petsc_chem_cells is_solver_call_def)

lemma solves_pid: "before_any_solve (events petsc_pid_nb) = []"
  unfolding events_def petsc_pid_nb_def read_nb
  by (simp add: read_cell petsc_pid_cells is_solver_call_def)

lemma events_pysmo:
  "events pysmo_nb =
     [Solved ''_run_ipopt_with_stats'', Solved ''solver.solve'',
      Checked (Compare (Call (Name ''abs'')
          [BinOp (Call (Name ''value'') [Name ''m.fs.H2''] []) OpSub (Num (33 / 100))] [])
        CmpLtE (Num (1 / 100))),
      Checked (Call (Name ''value'')
        [Compare (Name ''m.fs.N2'') CmpLtE (BinOp (Num (4 / 10)) OpAdd (Num (1 / 100000000)))] [])]"
  unfolding events_def pysmo_nb_def read_nb
  by (simp add: read_cell pysmo_cells is_solver_call_def)

lemma solves_pysmo: "before_any_solve (events pysmo_nb) = []"
  by (simp add: events_pysmo)

lemma events_alamo:
  "events alamo_nb =
     [Solved ''_run_ipopt_with_stats'', Solved ''solver.solve'',
      Checked (Compare (Call (Name ''abs'')
          [BinOp (Call (Name ''value'') [Name ''m.fs.H2''] []) OpSub (Num (33 / 100))] [])
        CmpLtE (Num (1 / 100))),
      Checked (Call (Name ''value'')
        [Compare (Name ''m.fs.N2'') CmpLtE (BinOp (Num (4 / 10)) OpAdd (Num (1 / 100000000)))] [])]"
  unfolding events_def alamo_nb_def read_nb
  by (simp add: read_cell alamo_cells is_solver_call_def)

lemma solves_alamo: "before_any_solve (events alamo_nb) = []"
  by (simp add: events_alamo)

lemma bound_by_pump:
  "bound_by ''DOF_initial'' pump_nb = [''degrees_of_freedom'', ''degrees_of_freedom''] \<and>
   bound_by ''DOF_final'' pump_nb = [''degrees_of_freedom'', ''degrees_of_freedom'']"
  unfolding bound_by_def pump_nb_def read_nb
  by (simp add: read_cell pump_cells)

lemmas check_eval =
  reads_solver_output_def counts_degrees_of_freedom_def startswith_def endswith_def

text \<open>
  C7 as stated, that every assertion validates solver output and none checks the model
  before any solve, fails on the pump notebook: its first two assertions run before the
  first solver invocation and check the degrees of freedom of the model.
\<close>

theorem pump_asserts_before_solve:
  "before_any_solve (events pump_nb) =
     [Compare (Name ''DOF_initial'') CmpEq (Num 5), Compare (Name ''DOF_final'') CmpEq (Num 0)] \<and>
   \<not> validates_solver_output pump_nb"
  by (simp add: validates_solver_output_def events_pump)

text \<open>
  C7, amended. The Txy and PETSc PID notebooks have no assertion. In the PETSc chemical,
  PySMO and ALAMO notebooks (6, 2 and 2 assertions) no assertion runs before a solver
  invocation, and every assertion reads solver output (the value of a model variable). In
  the pump notebook (12 assertions) every assertion either reads solver output (the
  solver's status and termination condition, the value of a model variable against a
  reference) or is one of four assertions on the degrees of freedom of the model:
  \<^verbatim>\<open>DOF_initial == 5\<close> and \<^verbatim>\<open>DOF_final == 0\<close>, once per case, each comparing a result of
  \<^verbatim>\<open>degrees_of_freedom\<close>; those of Case 1 run before any solver invocation.
\<close>

theorem assertions_checked:
  "list_all validates_solver_output [txy_nb, petsc_chem_nb, petsc_pid_nb, pysmo_nb, alamo_nb] \<and>
   map (\<lambda>nb. length (assertions nb)) notebooks = [12, 0, 6, 0, 2, 2] \<and>
   list_all (\<lambda>e. reads_solver_output e \<or> counts_degrees_of_freedom e) (assertions pump_nb) \<and>
   filter counts_degrees_of_freedom (assertions pump_nb) =
     [Compare (Name ''DOF_initial'') CmpEq (Num 5), Compare (Name ''DOF_final'') CmpEq (Num 0),
      Compare (Name ''DOF_initial'') CmpEq (Num 5), Compare (Name ''DOF_final'') CmpEq (Num 0)] \<and>
   bound_by ''DOF_initial'' pump_nb = [''degrees_of_freedom'', ''degrees_of_freedom''] \<and>
   bound_by ''DOF_final'' pump_nb = [''degrees_of_freedom'', ''degrees_of_freedom''] \<and>
   before_any_solve (events pump_nb) =
     [Compare (Name ''DOF_initial'') CmpEq (Num 5), Compare (Name ''DOF_final'') CmpEq (Num 0)]"
proof -
  have others:
    "list_all validates_solver_output [txy_nb, petsc_chem_nb, petsc_pid_nb, pysmo_nb, alamo_nb]"
    by (simp add: validates_solver_output_def solves_txy solves_chem solves_pid solves_pysmo
        solves_alamo assertions_txy assertions_chem assertions_pid assertions_pysmo
        assertions_alamo check_eval)
  have pump: "list_all (\<lambda>e. reads_solver_output e \<or> counts_degrees_of_freedom e) (assertions pump_nb)"
    by (simp add: assertions_pump check_eval)
  have dof: "filter counts_degrees_of_freedom (assertions pump_nb) =
     [Compare (Name ''DOF_initial'') CmpEq (Num 5), Compare (Name ''DOF_final'') CmpEq (Num 0),
      Compare (Name ''DOF_initial'') CmpEq (Num 5), Compare (Name ''DOF_final'') CmpEq (Num 0)]"
    by (simp add: assertions_pump check_eval)
  have counts: "map (\<lambda>nb. length (assertions nb)) notebooks = [12, 0, 6, 0, 2, 2]"
    by (simp add: notebooks_def assertions_pump assertions_txy assertions_chem assertions_pid
        assertions_pysmo assertions_alamo)
  have "before_any_solve (events pump_nb) =
     [Compare (Name ''DOF_initial'') CmpEq (Num 5), Compare (Name ''DOF_final'') CmpEq (Num 0)]"
    by (simp add: events_pump)
  with others counts pump dof bound_by_pump show ?thesis
    by simp
qed

subsection \<open>The order of operations\<close>










subsection \<open>Functions defined in the notebooks\<close>















subsection \<open>The surrogate's save and load\<close>








end
